theory Spec2Isabelle
  imports Complex_Main
begin

chapter \<open>QuickButtons: action execution and live-status buttons\<close>

text \<open>
  A shallow embedding of the button handlers of QuickButtons (Python, tkinter).
  Each closure-local \<^verbatim>\<open>state\<close> dictionary becomes a record, the Tk timer facility
  (\<^verbatim>\<open>btn.after\<close>, \<^verbatim>\<open>btn.after_cancel\<close>) becomes an explicit scheduler value, a worker
  thread runs one statement at a time between the events of the user-interface thread,
  and everything the operating system decides (exit codes, network answers, screen
  grabs) is an explicit environment argument.
\<close>

section \<open>Strings and number formatting\<close>

text \<open>
  Strings are byte lists. The source is UTF-8, so its non-ASCII glyphs are written out
  as their UTF-8 bytes.
\<close>

definition newline :: string where
  "newline = [CHR 0x0A]"

definition cross_mark :: string where
  "cross_mark = [CHR 0xE2, CHR 0x9D, CHR 0x8C]"

definition lock_closed :: string where
  "lock_closed = [CHR 0xF0, CHR 0x9F, CHR 0x94, CHR 0x92]"

definition lock_open :: string where
  "lock_open = [CHR 0xF0, CHR 0x9F, CHR 0x94, CHR 0x93]"

definition globe :: string where
  "globe = [CHR 0xF0, CHR 0x9F, CHR 0x8C, CHR 0x90]"

text \<open>Python's \<^verbatim>\<open>str(n)\<close> for a natural number: its decimal digits.\<close>

fun str_nat :: "nat \<Rightarrow> string" where
  "str_nat n =
     (if n < 10 then [''0123456789'' ! n]
      else str_nat (n div 10) @ [''0123456789'' ! (n mod 10)])"

declare str_nat.simps [simp del]

definition str_int :: "int \<Rightarrow> string" where
  "str_int i = (if i < 0 then ''-'' @ str_nat (nat (- i)) else str_nat (nat i))"

text \<open>Python's \<^verbatim>\<open>f"{i:02d}"\<close>: at least two characters, padded with zeros on the left.\<close>

definition fmt_02d :: "int \<Rightarrow> string" where
  "fmt_02d i = (let s = str_int i in replicate (2 - length s) CHR ''0'' @ s)"

text \<open>Python's \<^verbatim>\<open>f"{n:02x}"\<close> for a natural number: lower-case hexadecimal, two digits at least.\<close>

fun hex_nat :: "nat \<Rightarrow> string" where
  "hex_nat n =
     (if n < 16 then [''0123456789abcdef'' ! n]
      else hex_nat (n div 16) @ [''0123456789abcdef'' ! (n mod 16)])"

declare hex_nat.simps [simp del]

definition fmt_02x :: "nat \<Rightarrow> string" where
  "fmt_02x n = (let s = hex_nat n in replicate (2 - length s) CHR ''0'' @ s)"

text \<open>
  A Python float is a rational number, and \<^verbatim>\<open>f"{x:.<d>f}"\<close> prints the exact value
  rounded to \<open>d\<close> decimals, ties going to the even neighbour. Times are therefore
  modelled as \<^typ>\<open>rat\<close>.
\<close>

definition round_half_even :: "rat \<Rightarrow> int" where
  "round_half_even x =
     (let q = \<lfloor>x\<rfloor>; r = x - of_int q
      in if r < 1 / 2 then q else if 1 / 2 < r then q + 1 else if even q then q else q + 1)"

definition fmt_f :: "nat \<Rightarrow> rat \<Rightarrow> string" where
  "fmt_f d x =
     (let n = nat (round_half_even (\<bar>x\<bar> * 10 ^ d));
          ip = str_nat (n div 10 ^ d);
          fp = str_nat (n mod 10 ^ d)
      in (if x < 0 then ''-'' else '''') @ ip @
         (if d = 0 then '''' else ''.'' @ replicate (d - length fp) CHR ''0'' @ fp))"

text \<open>The translation lookup \<^verbatim>\<open>app._\<close> when no translation is loaded: the text itself.\<close>

definition untranslated :: "string \<Rightarrow> string" where
  "untranslated s = s"

section \<open>The Tk scheduler\<close>

text \<open>
  \<^verbatim>\<open>widget.after(ms, callback)\<close> queues a callback and returns a fresh handle;
  \<^verbatim>\<open>widget.after_cancel(handle)\<close> removes it (and does nothing for a handle that has
  fired or was cancelled). A handle is never falsy, so the source's test
  \<^verbatim>\<open>if state["job"]:\<close> is a test for \<open>Some\<close>.
\<close>

type_synonym handle = nat

record 'cb scheduler =
  next_id :: handle
  pending :: "(handle \<times> nat \<times> 'cb) list"

definition sched_init :: "'cb scheduler" where
  "sched_init = \<lparr>next_id = 0, pending = []\<rparr>"

definition after :: "nat \<Rightarrow> 'cb \<Rightarrow> 'cb scheduler \<Rightarrow> handle \<times> 'cb scheduler" where
  "after ms cb s =
     (next_id s, s\<lparr>next_id := Suc (next_id s), pending := pending s @ [(next_id s, ms, cb)]\<rparr>)"

definition after_cancel :: "handle \<Rightarrow> 'cb scheduler \<Rightarrow> 'cb scheduler" where
  "after_cancel h s = s\<lparr>pending := filter (\<lambda>e. fst e \<noteq> h) (pending s)\<rparr>"

definition cancel_opt :: "handle option \<Rightarrow> 'cb scheduler \<Rightarrow> 'cb scheduler" where
  "cancel_opt j s = (case j of None \<Rightarrow> s | Some h \<Rightarrow> after_cancel h s)"

text \<open>The callback that is queued under a handle, if any.\<close>

definition callback_of :: "handle \<Rightarrow> 'cb scheduler \<Rightarrow> 'cb option" where
  "callback_of h s =
     (case filter (\<lambda>e. fst e = h) (pending s) of
        [] \<Rightarrow> None
      | e # _ \<Rightarrow> Some (snd (snd e)))"

text \<open>The entries that are queued for a callback.\<close>

definition queued :: "'cb \<Rightarrow> 'cb scheduler \<Rightarrow> (handle \<times> nat \<times> 'cb) list" where
  "queued cb s = filter (\<lambda>e. snd (snd e) = cb) (pending s)"

definition handles :: "'cb scheduler \<Rightarrow> handle list" where
  "handles s = map fst (pending s)"

text \<open>Handles are handed out in increasing order, so a queued handle is below the next one.\<close>

definition sched_fresh :: "'cb scheduler \<Rightarrow> bool" where
  "sched_fresh s = list_all (\<lambda>h. h < next_id s) (handles s)"

section \<open>Ping button (ping\_handler.py)\<close>

record ping_cfg =
  ping_label :: "string option"
  ping_host :: "string option"
  ping_count :: "int option"

text \<open>What a \<^verbatim>\<open>subprocess.run\<close> call does: it returns with a return code or raises.\<close>

datatype proc_outcome = Returned int | TimeoutExpired | FileNotFoundError | OtherError

text \<open>
  Everything the worker learns from outside: the outcome of the two \<^verbatim>\<open>ping\<close> runs,
  the list \<^verbatim>\<open>ping_times\<close> that the parsing loop extracts from the second run's output
  (milliseconds), and the socket fallback (the elapsed seconds, or \<open>None\<close> when
  \<^verbatim>\<open>create_connection\<close> raises).
\<close>

record ping_env =
  first_run :: proc_outcome
  second_run :: proc_outcome
  ping_times :: "rat list"
  socket_elapsed :: "rat option"

type_synonym ping_result = "rat option \<times> bool \<times> string"

datatype ping_cb = PingUpdateLabel | PingClearResults

text \<open>
  The closure of \<^verbatim>\<open>create_ping_button\<close>: the \<^verbatim>\<open>state\<close> dictionary, the button's text,
  the scheduler, and the worker threads started so far, in the order of their start. A
  thread is the number of statements of \<^verbatim>\<open>run_ping\<close> that touch the shared state and
  that it has executed; after the fifth it has ended.
\<close>

record ping_button =
  pg_running :: bool
  pg_job :: "handle option"
  pg_results :: "ping_result option"
  pg_clear_job :: "handle option"
  pg_text :: string
  pg_sched :: "ping_cb scheduler"
  pg_threads :: "nat list"

definition ping_orig_label :: "(string \<Rightarrow> string) \<Rightarrow> ping_cfg \<Rightarrow> string" where
  "ping_orig_label tr cfg = (case ping_label cfg of Some l \<Rightarrow> l | None \<Rightarrow> tr ''Ping'')"

definition ping_host_of :: "ping_cfg \<Rightarrow> string" where
  "ping_host_of cfg = (case ping_host cfg of Some h \<Rightarrow> h | None \<Rightarrow> ''8.8.8.8'')"

definition create_ping_button :: "(string \<Rightarrow> string) \<Rightarrow> ping_cfg \<Rightarrow> ping_button" where
  "create_ping_button tr cfg =
     \<lparr>pg_running = False, pg_job = None, pg_results = None, pg_clear_job = None,
      pg_text = ping_orig_label tr cfg, pg_sched = sched_init, pg_threads = []\<rparr>"

text \<open>
  \<^verbatim>\<open>update_label\<close>. A result tuple is never falsy. A successful result with no time
  cannot be produced by the worker; Python would raise on \<^verbatim>\<open>None < 1\<close> and leave the
  text as it is.
\<close>

definition ping_update_label :: "(string \<Rightarrow> string) \<Rightarrow> ping_cfg \<Rightarrow> ping_button \<Rightarrow> ping_button" where
  "ping_update_label tr cfg b =
     (if pg_running b then b\<lparr>pg_text := tr ''Pinging...''\<rparr>
      else case pg_results b of
        Some (ping_time, success, host) \<Rightarrow>
          (if success then
             (case ping_time of
                Some t \<Rightarrow>
                  b\<lparr>pg_text := host @ newline @
                       (if t < 1 then fmt_f 0 t else fmt_f 1 t) @ ''ms''\<rparr>
              | None \<Rightarrow> b)
           else b\<lparr>pg_text := host @ newline @ tr ''Failed''\<rparr>)
      | None \<Rightarrow> b\<lparr>pg_text := ping_orig_label tr cfg\<rparr>)"

definition ping_socket_fallback :: "ping_env \<Rightarrow> string \<Rightarrow> ping_result" where
  "ping_socket_fallback env host =
     (case socket_elapsed env of
        Some el \<Rightarrow> (Some (el * 1000), True, host)
      | None \<Rightarrow> (None, False, host))"

text \<open>The \<^verbatim>\<open>try\<close> part of \<^verbatim>\<open>run_ping\<close>: the result it stores.\<close>

definition run_ping_result :: "ping_cfg \<Rightarrow> ping_env \<Rightarrow> ping_result" where
  "run_ping_result cfg env =
     (let host = ping_host_of cfg in
      case first_run env of
        Returned rc1 \<Rightarrow>
          (if rc1 = 0 then
             (case second_run env of
                Returned rc2 \<Rightarrow>
                  (if rc2 = 0 then
                     (if ping_times env \<noteq> [] then
                        (Some (sum_list (ping_times env) / of_nat (length (ping_times env))),
                         True, host)
                      else (None, False, host))
                   else (None, False, host))
              | TimeoutExpired \<Rightarrow> ping_socket_fallback env host
              | FileNotFoundError \<Rightarrow> ping_socket_fallback env host
              | OtherError \<Rightarrow> (None, False, host))
           else (None, False, host))
      | TimeoutExpired \<Rightarrow> ping_socket_fallback env host
      | FileNotFoundError \<Rightarrow> ping_socket_fallback env host
      | OtherError \<Rightarrow> (None, False, host))"

text \<open>
  \<^verbatim>\<open>run_ping\<close> runs in a thread of its own, beside the clicks and callbacks of the
  user-interface thread, so it is modelled one statement at a time. Only five of its
  statements touch the shared state: the one that stores the result (the last of the
  \<^verbatim>\<open>try\<close> part, whichever branch is taken), and the four of the \<^verbatim>\<open>finally\<close> block, which
  clear \<^verbatim>\<open>running\<close>, queue \<^verbatim>\<open>update_label\<close>, cancel the old clear job and queue the new
  one. None of them looks at the state the button is in.
\<close>

definition run_ping_statement ::
  "ping_cfg \<Rightarrow> ping_env \<Rightarrow> nat \<Rightarrow> ping_button \<Rightarrow> ping_button" where
  "run_ping_statement cfg env k b =
     (if k = 0 then b\<lparr>pg_results := Some (run_ping_result cfg env)\<rparr>
      else if k = 1 then b\<lparr>pg_running := False\<rparr>
      else if k = 2 then b\<lparr>pg_sched := snd (after 0 PingUpdateLabel (pg_sched b))\<rparr>
      else if k = 3 then b\<lparr>pg_sched := cancel_opt (pg_clear_job b) (pg_sched b)\<rparr>
      else if k = 4 then
        (let (h, s) = after 60000 PingClearResults (pg_sched b)
         in b\<lparr>pg_clear_job := Some h, pg_sched := s\<rparr>)
      else b)"

definition ping_clear_results :: "(string \<Rightarrow> string) \<Rightarrow> ping_cfg \<Rightarrow> ping_button \<Rightarrow> ping_button" where
  "ping_clear_results tr cfg b =
     (let b1 = b\<lparr>pg_results := None\<rparr>;
          b2 = (case pg_clear_job b1 of
                  Some h \<Rightarrow> b1\<lparr>pg_sched := after_cancel h (pg_sched b1), pg_clear_job := None\<rparr>
                | None \<Rightarrow> b1)
      in ping_update_label tr cfg b2)"

definition start_ping :: "(string \<Rightarrow> string) \<Rightarrow> ping_cfg \<Rightarrow> ping_button \<Rightarrow> ping_button" where
  "start_ping tr cfg b =
     (if pg_running b then b
      else
        let b1 = (case pg_clear_job b of
                    Some h \<Rightarrow> b\<lparr>pg_sched := after_cancel h (pg_sched b), pg_clear_job := None\<rparr>
                  | None \<Rightarrow> b);
            b2 = b1\<lparr>pg_running := True, pg_results := None\<rparr>;
            b3 = ping_update_label tr cfg b2
        in b3\<lparr>pg_threads := pg_threads b3 @ [0]\<rparr>)"

text \<open>
  What can happen to a ping button: a primary click, a worker thread (given by its
  position among the threads started) executing its next statement, and a queued
  callback firing. What the thread has met outside comes with the thread's step; only
  the statement that stores the result reads it. A handler of the user-interface thread
  is one step.
\<close>

datatype ping_event = PingClick | PingWorker nat ping_env | PingFire handle

definition ping_fire :: "(string \<Rightarrow> string) \<Rightarrow> ping_cfg \<Rightarrow> handle \<Rightarrow> ping_button \<Rightarrow> ping_button" where
  "ping_fire tr cfg h b =
     (case callback_of h (pg_sched b) of
        None \<Rightarrow> b
      | Some cb \<Rightarrow>
          let b1 = b\<lparr>pg_sched := after_cancel h (pg_sched b)\<rparr>
          in (case cb of
                PingUpdateLabel \<Rightarrow> ping_update_label tr cfg b1
              | PingClearResults \<Rightarrow> ping_clear_results tr cfg b1))"

fun ping_step :: "(string \<Rightarrow> string) \<Rightarrow> ping_cfg \<Rightarrow> ping_button \<Rightarrow> ping_event \<Rightarrow> ping_button" where
  "ping_step tr cfg b PingClick = start_ping tr cfg b"
| "ping_step tr cfg b (PingWorker i env) =
     (if i < length (pg_threads b) \<and> pg_threads b ! i < 5
      then run_ping_statement cfg env (pg_threads b ! i)
             (b\<lparr>pg_threads := (pg_threads b)[i := Suc (pg_threads b ! i)]\<rparr>)
      else b)"
| "ping_step tr cfg b (PingFire h) = ping_fire tr cfg h b"

definition ping_run :: "(string \<Rightarrow> string) \<Rightarrow> ping_cfg \<Rightarrow> ping_event list \<Rightarrow> ping_button" where
  "ping_run tr cfg evs = foldl (ping_step tr cfg) (create_ping_button tr cfg) evs"

text \<open>The scenario of the specification: host 8.8.8.8, one packet.\<close>

definition ping_cfg_8888 :: ping_cfg where
  "ping_cfg_8888 = \<lparr>ping_label = None, ping_host = Some ''8.8.8.8'', ping_count = Some 1\<rparr>"

definition ping_env_ok :: "rat \<Rightarrow> ping_env" where
  "ping_env_ok ms =
     \<lparr>first_run = Returned 0, second_run = Returned 0, ping_times = [ms], socket_elapsed = None\<rparr>"

definition ping_env_fail :: ping_env where
  "ping_env_fail =
     \<lparr>first_run = Returned 1, second_run = Returned 1, ping_times = [], socket_elapsed = None\<rparr>"

text \<open>
  The label once the click, the five statements of the worker and the queued
  \<^verbatim>\<open>update_label\<close> have run.
\<close>

definition ping_rendered :: "ping_cfg \<Rightarrow> ping_env \<Rightarrow> string" where
  "ping_rendered cfg env =
     pg_text (ping_run (\<lambda>s. s) cfg
       [PingClick, PingWorker 0 env, PingWorker 0 env, PingWorker 0 env, PingWorker 0 env,
        PingWorker 0 env, PingFire 0])"

text \<open>
  A second activation that overtakes the end of the first: the first worker stores its
  result and clears \<^verbatim>\<open>running\<close>, a click starts a second worker, and only then does the
  first worker execute the rest of its \<^verbatim>\<open>finally\<close> block.
\<close>

definition ping_restarted :: ping_button where
  "ping_restarted =
     ping_run untranslated ping_cfg_8888
       [PingClick, PingWorker 0 (ping_env_ok 12), PingWorker 0 (ping_env_ok 12), PingClick]"

definition ping_restarted_then_old_epilogue :: ping_button where
  "ping_restarted_then_old_epilogue =
     foldl (ping_step untranslated ping_cfg_8888) ping_restarted
       [PingWorker 0 (ping_env_ok 12), PingWorker 0 (ping_env_ok 12),
        PingWorker 0 (ping_env_ok 12)]"

text \<open>
  What the order of the statements gives for the threads of a probe, given the value of
  \<^verbatim>\<open>running\<close>: every thread but the newest has cleared \<^verbatim>\<open>running\<close> already (it has
  executed two statements at least), and \<^verbatim>\<open>running\<close> is set exactly when there is a newest
  thread that has not.
\<close>

definition threads_ok :: "bool \<Rightarrow> nat list \<Rightarrow> bool" where
  "threads_ok r ts =
     (list_all (\<lambda>k. 2 \<le> k) (butlast ts) \<and> (r \<longleftrightarrow> ts \<noteq> [] \<and> last ts < 2))"

section \<open>HTTP test button (http\_test\_handler.py)\<close>

record http_cfg =
  http_label :: "string option"
  test_url :: "string option"
  timeout :: "int option"

text \<open>
  What a \<^verbatim>\<open>requests.get\<close> call does: it returns a response, of which the worker reads
  the status code and, right after, the seconds elapsed since \<^verbatim>\<open>start_time\<close>; or it
  raises \<^verbatim>\<open>SSLError\<close>, another \<^verbatim>\<open>RequestException\<close>, or something else.
\<close>

datatype http_outcome = Response int rat | SSLError | RequestException | OtherException

text \<open>
  The network as the worker meets it, one answer per call site of \<^verbatim>\<open>requests.get\<close>:
  with certificate validation, without it, and the plain HTTP attempt.
\<close>

record http_env =
  get_verified :: "string \<Rightarrow> http_outcome"
  get_unverified :: "string \<Rightarrow> http_outcome"
  get_plain :: "string \<Rightarrow> http_outcome"

type_synonym http_result = "string \<times> rat \<times> string \<times> bool"

datatype http_cb = HttpUpdateLabel | HttpClearResults

record http_button =
  ht_running :: bool
  ht_job :: "handle option"
  ht_clear_job :: "handle option"
  ht_results :: "http_result option"
  ht_text :: string
  ht_sched :: "http_cb scheduler"
  ht_threads :: "nat list"

definition startswith :: "string \<Rightarrow> string \<Rightarrow> bool" where
  "startswith s p = (take (length p) s = p)"

definition http_orig_label :: "(string \<Rightarrow> string) \<Rightarrow> http_cfg \<Rightarrow> string" where
  "http_orig_label tr cfg = (case http_label cfg of Some l \<Rightarrow> l | None \<Rightarrow> tr ''HTTP Test'')"

definition test_url_of :: "http_cfg \<Rightarrow> string" where
  "test_url_of cfg = (case test_url cfg of Some u \<Rightarrow> u | None \<Rightarrow> ''https://google.com'')"

definition create_http_test_button :: "(string \<Rightarrow> string) \<Rightarrow> http_cfg \<Rightarrow> http_button" where
  "create_http_test_button tr cfg =
     \<lparr>ht_running = False, ht_job = None, ht_clear_job = None, ht_results = None,
      ht_text = http_orig_label tr cfg, ht_sched = sched_init, ht_threads = []\<rparr>"

text \<open>
  The domain shown on the button. \<^verbatim>\<open>urlparse\<close> is the standard library's and is taken
  as a parameter: it yields the \<^verbatim>\<open>netloc\<close> and the \<^verbatim>\<open>path\<close> of a URL, or \<open>None\<close>
  when it raises.
\<close>

definition http_domain :: "(string \<Rightarrow> (string \<times> string) option) \<Rightarrow> string \<Rightarrow> string" where
  "http_domain urlparse url =
     (case urlparse url of
        None \<Rightarrow> url
      | Some (netloc, path) \<Rightarrow>
          (if netloc \<noteq> [] then netloc else takeWhile (\<lambda>c. c \<noteq> CHR ''/'') path))"

definition http_update_label ::
  "(string \<Rightarrow> string) \<Rightarrow> (string \<Rightarrow> (string \<times> string) option) \<Rightarrow> http_cfg \<Rightarrow>
   http_button \<Rightarrow> http_button" where
  "http_update_label tr urlparse cfg b =
     (if ht_running b then b\<lparr>ht_text := tr ''Testing...''\<rparr>
      else case ht_results b of
        Some (status, response_time, https_status, cert_valid) \<Rightarrow>
          (if status = ''success'' then
             let time_str = (if response_time < 1 then fmt_f 0 (response_time * 1000) @ ''ms''
                             else fmt_f 1 response_time @ ''s'');
                 lock_icon = (if https_status = ''https''
                              then (if cert_valid then lock_closed else lock_open)
                              else globe);
                 domain = http_domain urlparse (test_url_of cfg)
             in b\<lparr>ht_text := lock_icon @ '' '' @ domain @ newline @ time_str\<rparr>
           else b\<lparr>ht_text := cross_mark @ '' '' @ tr ''Failed''\<rparr>)
      | None \<Rightarrow> b\<lparr>ht_text := http_orig_label tr cfg\<rparr>)"

definition http_clear_results ::
  "(string \<Rightarrow> string) \<Rightarrow> (string \<Rightarrow> (string \<times> string) option) \<Rightarrow> http_cfg \<Rightarrow>
   http_button \<Rightarrow> http_button" where
  "http_clear_results tr urlparse cfg b =
     (let b1 = b\<lparr>ht_results := None\<rparr>;
          b2 = (case ht_clear_job b1 of
                  Some h \<Rightarrow> b1\<lparr>ht_sched := after_cancel h (ht_sched b1), ht_clear_job := None\<rparr>
                | None \<Rightarrow> b1)
      in http_update_label tr urlparse cfg b2)"

definition https_url_of :: "http_cfg \<Rightarrow> string" where
  "https_url_of cfg =
     (let u = test_url_of cfg
      in if startswith u ''http://'' \<or> startswith u ''https://'' then u else ''https://'' @ u)"

definition http_url_of :: "http_cfg \<Rightarrow> string" where
  "http_url_of cfg =
     (let u = test_url_of cfg
      in if startswith u ''http://'' then u
         else if startswith u ''https://'' then ''http://'' @ drop 8 u
         else ''http://'' @ u)"

text \<open>The plain HTTP attempt, made after the HTTPS attempts have raised.\<close>

definition http_fallback :: "http_cfg \<Rightarrow> http_env \<Rightarrow> http_result" where
  "http_fallback cfg env =
     (case get_plain env (http_url_of cfg) of
        Response status_code response_time \<Rightarrow>
          (if status_code < 400 then (''success'', response_time, ''http'', False)
           else (''failed'', response_time, ''http'', False))
      | SSLError \<Rightarrow> (''failed'', 0, ''http'', False)
      | RequestException \<Rightarrow> (''failed'', 0, ''http'', False)
      | OtherException \<Rightarrow> (''failed'', 0, ''http'', False))"

text \<open>The \<^verbatim>\<open>try\<close> part of \<^verbatim>\<open>run_http_test\<close>: the result it stores.\<close>

definition run_http_test_result :: "http_cfg \<Rightarrow> http_env \<Rightarrow> http_result" where
  "run_http_test_result cfg env =
     (case get_verified env (https_url_of cfg) of
        Response status_code response_time \<Rightarrow>
          (if status_code < 400 then (''success'', response_time, ''https'', True)
           else (''failed'', response_time, ''https'', True))
      | SSLError \<Rightarrow>
          (case get_unverified env (https_url_of cfg) of
             Response status_code response_time \<Rightarrow>
               (if status_code < 400 then (''success'', response_time, ''https'', False)
                else (''failed'', response_time, ''https'', False))
           | SSLError \<Rightarrow> http_fallback cfg env
           | RequestException \<Rightarrow> http_fallback cfg env
           | OtherException \<Rightarrow> http_fallback cfg env)
      | RequestException \<Rightarrow> http_fallback cfg env
      | OtherException \<Rightarrow> (''failed'', 0, ''unknown'', False))"

text \<open>
  \<^verbatim>\<open>run_http_test\<close>, one statement at a time as for the ping worker: the statement that
  stores the result, and the four of the \<^verbatim>\<open>finally\<close> block.
\<close>

definition run_http_test_statement ::
  "http_cfg \<Rightarrow> http_env \<Rightarrow> nat \<Rightarrow> http_button \<Rightarrow> http_button" where
  "run_http_test_statement cfg env k b =
     (if k = 0 then b\<lparr>ht_results := Some (run_http_test_result cfg env)\<rparr>
      else if k = 1 then b\<lparr>ht_running := False\<rparr>
      else if k = 2 then b\<lparr>ht_sched := snd (after 0 HttpUpdateLabel (ht_sched b))\<rparr>
      else if k = 3 then b\<lparr>ht_sched := cancel_opt (ht_clear_job b) (ht_sched b)\<rparr>
      else if k = 4 then
        (let (h, s) = after 60000 HttpClearResults (ht_sched b)
         in b\<lparr>ht_clear_job := Some h, ht_sched := s\<rparr>)
      else b)"

definition start_http_test ::
  "(string \<Rightarrow> string) \<Rightarrow> (string \<Rightarrow> (string \<times> string) option) \<Rightarrow> http_cfg \<Rightarrow>
   http_button \<Rightarrow> http_button" where
  "start_http_test tr urlparse cfg b =
     (if ht_running b then b
      else
        let b1 = (case ht_clear_job b of
                    Some h \<Rightarrow> b\<lparr>ht_sched := after_cancel h (ht_sched b), ht_clear_job := None\<rparr>
                  | None \<Rightarrow> b);
            b2 = b1\<lparr>ht_running := True, ht_results := None\<rparr>;
            b3 = http_update_label tr urlparse cfg b2
        in b3\<lparr>ht_threads := ht_threads b3 @ [0]\<rparr>)"

datatype http_event = HttpClick | HttpWorker nat http_env | HttpFire handle

definition http_fire ::
  "(string \<Rightarrow> string) \<Rightarrow> (string \<Rightarrow> (string \<times> string) option) \<Rightarrow> http_cfg \<Rightarrow>
   handle \<Rightarrow> http_button \<Rightarrow> http_button" where
  "http_fire tr urlparse cfg h b =
     (case callback_of h (ht_sched b) of
        None \<Rightarrow> b
      | Some cb \<Rightarrow>
          let b1 = b\<lparr>ht_sched := after_cancel h (ht_sched b)\<rparr>
          in (case cb of
                HttpUpdateLabel \<Rightarrow> http_update_label tr urlparse cfg b1
              | HttpClearResults \<Rightarrow> http_clear_results tr urlparse cfg b1))"

fun http_step ::
  "(string \<Rightarrow> string) \<Rightarrow> (string \<Rightarrow> (string \<times> string) option) \<Rightarrow> http_cfg \<Rightarrow>
   http_button \<Rightarrow> http_event \<Rightarrow> http_button" where
  "http_step tr urlparse cfg b HttpClick = start_http_test tr urlparse cfg b"
| "http_step tr urlparse cfg b (HttpWorker i env) =
     (if i < length (ht_threads b) \<and> ht_threads b ! i < 5
      then run_http_test_statement cfg env (ht_threads b ! i)
             (b\<lparr>ht_threads := (ht_threads b)[i := Suc (ht_threads b ! i)]\<rparr>)
      else b)"
| "http_step tr urlparse cfg b (HttpFire h) = http_fire tr urlparse cfg h b"

definition http_run ::
  "(string \<Rightarrow> string) \<Rightarrow> (string \<Rightarrow> (string \<times> string) option) \<Rightarrow> http_cfg \<Rightarrow>
   http_event list \<Rightarrow> http_button" where
  "http_run tr urlparse cfg evs =
     foldl (http_step tr urlparse cfg) (create_http_test_button tr cfg) evs"

text \<open>
  A fresh button after one click, the five statements of the worker and the queued
  \<^verbatim>\<open>update_label\<close>.
\<close>

definition http_tested ::
  "(string \<Rightarrow> string) \<Rightarrow> (string \<Rightarrow> (string \<times> string) option) \<Rightarrow> http_cfg \<Rightarrow>
   http_env \<Rightarrow> http_button" where
  "http_tested tr urlparse cfg env =
     http_run tr urlparse cfg
       [HttpClick, HttpWorker 0 env, HttpWorker 0 env, HttpWorker 0 env, HttpWorker 0 env,
        HttpWorker 0 env, HttpFire 0]"

text \<open>Which response, if any, ends the worker's \<^verbatim>\<open>try\<close> part with a status code.\<close>

definition deciding_response :: "http_cfg \<Rightarrow> http_env \<Rightarrow> (int \<times> rat) option" where
  "deciding_response cfg env =
     (let plain = (case get_plain env (http_url_of cfg) of
                     Response c t \<Rightarrow> Some (c, t) | SSLError \<Rightarrow> None
                   | RequestException \<Rightarrow> None | OtherException \<Rightarrow> None)
      in case get_verified env (https_url_of cfg) of
           Response c t \<Rightarrow> Some (c, t)
         | SSLError \<Rightarrow>
             (case get_unverified env (https_url_of cfg) of
                Response c t \<Rightarrow> Some (c, t) | SSLError \<Rightarrow> plain
              | RequestException \<Rightarrow> plain | OtherException \<Rightarrow> plain)
         | RequestException \<Rightarrow> plain
         | OtherException \<Rightarrow> None)"

definition http_env_status :: "int \<Rightarrow> rat \<Rightarrow> http_env" where
  "http_env_status code t =
     \<lparr>get_verified = (\<lambda>u. Response code t), get_unverified = (\<lambda>u. OtherException),
      get_plain = (\<lambda>u. OtherException)\<rparr>"

definition http_cfg_example :: http_cfg where
  "http_cfg_example = \<lparr>http_label = None, test_url = Some ''https://example.com'', timeout = None\<rparr>"

section \<open>Color picker button (color\_picker\_handler.py)\<close>

record color_cfg =
  color_label :: "string option"

text \<open>
  What \<^verbatim>\<open>ImageGrab.grab(...).getpixel((0, 0))\<close> does: the import fails, the grab or the
  read raises, or a pixel comes back as a tuple of channel values.
\<close>

datatype pil_outcome = PilImportError | PilRaises | PilPixel "nat list"

datatype platform = Windows | Darwin | Linux

text \<open>
  The screen and the operating system as one pick meets them at the clicked point:
  the PIL grab, \<^verbatim>\<open>platform.system()\<close>, the value of \<^verbatim>\<open>dc.GetPixel\<close> (\<open>None\<close> when
  win32 is missing or raises), whether \<^verbatim>\<open>screencapture\<close> and \<^verbatim>\<open>xwd\<close> run, and whether
  the Tk clipboard and the system clipboard command work.
\<close>

record color_env =
  pil_grab :: pil_outcome
  platform_system :: platform
  win32_pixel :: "int option"
  screencapture_ok :: bool
  xwd_ok :: bool
  tk_clipboard_ok :: bool
  system_clipboard_ok :: bool

datatype color_cb = ColorUpdateLabel | ColorClearColor | ColorShowPickFailed

record color_button =
  cp_picking :: bool
  cp_color :: "string option"
  cp_clear_job :: "handle option"
  cp_text :: string
  cp_bg :: string
  cp_sched :: "color_cb scheduler"
  cp_clipboard :: "string option"

definition color_orig_label :: "(string \<Rightarrow> string) \<Rightarrow> color_cfg \<Rightarrow> string" where
  "color_orig_label tr cfg = (case color_label cfg of Some l \<Rightarrow> l | None \<Rightarrow> tr ''Color Picker'')"

text \<open>
  \<^verbatim>\<open>int(s, 16)\<close> on a slice of the colour string, for strings of hexadecimal digits;
  anything else (the empty slice of a short string among them) raises, which is \<open>None\<close>.
\<close>

definition hex_digit :: "char \<Rightarrow> nat option" where
  "hex_digit c =
     (let n = of_char c :: nat
      in if 48 \<le> n \<and> n \<le> 57 then Some (n - 48)
         else if 97 \<le> n \<and> n \<le> 102 then Some (n - 87)
         else if 65 \<le> n \<and> n \<le> 70 then Some (n - 55)
         else None)"

fun int_hex_acc :: "nat \<Rightarrow> string \<Rightarrow> nat option" where
  "int_hex_acc acc [] = Some acc"
| "int_hex_acc acc (c # cs) =
     (case hex_digit c of None \<Rightarrow> None | Some d \<Rightarrow> int_hex_acc (16 * acc + d) cs)"

definition int_hex :: "string \<Rightarrow> nat option" where
  "int_hex s = (if s = [] then None else int_hex_acc 0 s)"

text \<open>A Python string is truthy when it is there and not empty.\<close>

definition truthy :: "string option \<Rightarrow> bool" where
  "truthy c = (case c of None \<Rightarrow> False | Some s \<Rightarrow> s \<noteq> [])"

definition color_update_label ::
  "(string \<Rightarrow> string) \<Rightarrow> color_cfg \<Rightarrow> string \<Rightarrow> color_button \<Rightarrow> color_button" where
  "color_update_label tr cfg bg_color b =
     (if cp_picking b then b\<lparr>cp_text := tr ''Click on screen...''\<rparr>
      else if truthy (cp_color b) then
        let hex_color = the (cp_color b);
            b1 = b\<lparr>cp_text := ''#'' @ hex_color @ newline @ tr ''Copied!''\<rparr>
        in (case (int_hex (take 2 hex_color), int_hex (take 2 (drop 2 hex_color)),
                  int_hex (take 2 (drop 4 hex_color))) of
              (Some r, Some g, Some bl) \<Rightarrow>
                b1\<lparr>cp_bg := ''#'' @ fmt_02x r @ fmt_02x g @ fmt_02x bl\<rparr>
            | _ \<Rightarrow> b1)
      else b\<lparr>cp_text := color_orig_label tr cfg, cp_bg := bg_color\<rparr>)"

definition clear_color ::
  "(string \<Rightarrow> string) \<Rightarrow> color_cfg \<Rightarrow> string \<Rightarrow> color_button \<Rightarrow> color_button" where
  "clear_color tr cfg bg_color b =
     (let b1 = b\<lparr>cp_color := None\<rparr>;
          b2 = (case cp_clear_job b1 of
                  Some h \<Rightarrow> b1\<lparr>cp_sched := after_cancel h (cp_sched b1), cp_clear_job := None\<rparr>
                | None \<Rightarrow> b1)
      in color_update_label tr cfg bg_color b2)"

text \<open>
  \<^verbatim>\<open>copy_to_clipboard\<close>: the Tk clipboard first, a system command when that raises; when
  both fail the failure is logged and the clipboard keeps what it had.
\<close>

definition copy_to_clipboard :: "color_env \<Rightarrow> string \<Rightarrow> color_button \<Rightarrow> color_button" where
  "copy_to_clipboard env text b =
     (if tk_clipboard_ok env then b\<lparr>cp_clipboard := Some (''#'' @ text)\<rparr>
      else if system_clipboard_ok env then b\<lparr>cp_clipboard := Some (''#'' @ text)\<rparr>
      else b)"

definition rgb_hex :: "nat \<Rightarrow> nat \<Rightarrow> nat \<Rightarrow> string" where
  "rgb_hex r g b = fmt_02x r @ fmt_02x g @ fmt_02x b"

text \<open>
  \<^verbatim>\<open>get_pixel_color_windows\<close>: the colour word is split by masks and shifts, which on
  Python's integers are remainder and floor division.
\<close>

definition get_pixel_color_windows :: "color_env \<Rightarrow> string option" where
  "get_pixel_color_windows env =
     (case win32_pixel env of
        None \<Rightarrow> None
      | Some color \<Rightarrow>
          Some (rgb_hex (nat (color mod 256)) (nat (color div 256 mod 256))
                  (nat (color div 65536 mod 256))))"

definition get_pixel_color_macos :: "color_env \<Rightarrow> string option" where
  "get_pixel_color_macos env = (if screencapture_ok env then Some ''000000'' else None)"

definition get_pixel_color_linux :: "color_env \<Rightarrow> string option" where
  "get_pixel_color_linux env = (if xwd_ok env then Some ''000000'' else None)"

text \<open>
  \<^verbatim>\<open>get_pixel_color\<close>. The helpers catch every exception themselves, so the outer
  \<^verbatim>\<open>except\<close> (the only \<^verbatim>\<open>return None\<close>) has nothing to catch from them.
\<close>

definition get_pixel_color :: "color_env \<Rightarrow> string option" where
  "get_pixel_color env =
     (let fallback =
            (let color = (case platform_system env of
                            Windows \<Rightarrow> get_pixel_color_windows env
                          | Darwin \<Rightarrow> get_pixel_color_macos env
                          | Linux \<Rightarrow> get_pixel_color_linux env)
             in if truthy color then color else Some ''ff0000'')
      in case pil_grab env of
           PilPixel pixel \<Rightarrow>
             (if 3 \<le> length pixel then Some (rgb_hex (pixel ! 0) (pixel ! 1) (pixel ! 2))
              else fallback)
         | PilImportError \<Rightarrow> fallback
         | PilRaises \<Rightarrow> fallback)"

text \<open>
  \<^verbatim>\<open>on_click\<close> of the picking overlay. The branch is chosen by the truthiness of what
  \<^verbatim>\<open>get_pixel_color\<close> returned.
\<close>

definition on_click :: "color_env \<Rightarrow> color_button \<Rightarrow> color_button" where
  "on_click env b =
     (let color = get_pixel_color env;
          b1 = b\<lparr>cp_picking := False\<rparr>
      in if truthy color then
           let b2 = b1\<lparr>cp_color := color\<rparr>;
               b3 = copy_to_clipboard env (the color) b2;
               s1 = snd (after 0 ColorUpdateLabel (cp_sched b3));
               s2 = cancel_opt (cp_clear_job b3) s1;
               (h, s3) = after 30000 ColorClearColor s2
           in b3\<lparr>cp_clear_job := Some h, cp_sched := s3\<rparr>
         else
           let s1 = snd (after 0 ColorShowPickFailed (cp_sched b1));
               s2 = snd (after 2000 ColorUpdateLabel s1)
           in b1\<lparr>cp_sched := s2\<rparr>)"

definition color_fire ::
  "(string \<Rightarrow> string) \<Rightarrow> color_cfg \<Rightarrow> string \<Rightarrow> handle \<Rightarrow> color_button \<Rightarrow> color_button" where
  "color_fire tr cfg bg_color h b =
     (case callback_of h (cp_sched b) of
        None \<Rightarrow> b
      | Some cb \<Rightarrow>
          let b1 = b\<lparr>cp_sched := after_cancel h (cp_sched b)\<rparr>
          in (case cb of
                ColorUpdateLabel \<Rightarrow> color_update_label tr cfg bg_color b1
              | ColorClearColor \<Rightarrow> clear_color tr cfg bg_color b1
              | ColorShowPickFailed \<Rightarrow> b1\<lparr>cp_text := tr ''Pick failed''\<rparr>))"

text \<open>
  The button while the overlay waits for the click: \<^verbatim>\<open>start_color_picking\<close> has set
  \<^verbatim>\<open>picking\<close> and shown the instruction, and its one-second callback has fired.
\<close>

definition color_picking_button ::
  "(string \<Rightarrow> string) \<Rightarrow> string \<Rightarrow> color_button" where
  "color_picking_button tr bg_color =
     \<lparr>cp_picking = True, cp_color = None, cp_clear_job = None,
      cp_text = tr ''Click on screen...'', cp_bg = bg_color,
      cp_sched = \<lparr>next_id = 1, pending = []\<rparr>, cp_clipboard = None\<rparr>"

text \<open>A button whose clear job, when it has one, was handed out by its scheduler.\<close>

definition color_button_ok :: "color_button \<Rightarrow> bool" where
  "color_button_ok b =
     (sched_fresh (cp_sched b) \<and>
      (case cp_clear_job b of None \<Rightarrow> True | Some h \<Rightarrow> h < next_id (cp_sched b)))"

text \<open>Every detection method failing without raising.\<close>

definition all_detection_fails :: "color_env \<Rightarrow> bool" where
  "all_detection_fails env =
     ((case pil_grab env of PilPixel pixel \<Rightarrow> length pixel < 3
       | PilImportError \<Rightarrow> True | PilRaises \<Rightarrow> True) \<and>
      (case platform_system env of
         Windows \<Rightarrow> win32_pixel env = None
       | Darwin \<Rightarrow> \<not> screencapture_ok env
       | Linux \<Rightarrow> \<not> xwd_ok env))"

definition color_env_dead :: color_env where
  "color_env_dead =
     \<lparr>pil_grab = PilImportError, platform_system = Linux, win32_pixel = None,
      screencapture_ok = False, xwd_ok = False, tk_clipboard_ok = True,
      system_clipboard_ok = False\<rparr>"

section \<open>Script output overlay (ui/dialogs/output\_overlay.py)\<close>

text \<open>
  This is the overlay that the program shows. quickbuttons.py has a class of the same
  name, whose \<^verbatim>\<open>read_output\<close> tests whether a line ends with a colon or a question mark;
  but its \<^verbatim>\<open>__init__\<close> begins with a call of \<^verbatim>\<open>self._\<close>, and \<^verbatim>\<open>_\<close> is attached to
  \<^verbatim>\<open>QuickButtonsApp\<close> only, so constructing it raises \<^verbatim>\<open>AttributeError\<close> before any
  process is started. No session of that class exists, and it is not modelled.
\<close>

text \<open>Python's \<^verbatim>\<open>sub in s\<close> and \<^verbatim>\<open>s.endswith(suf)\<close>.\<close>

fun contains :: "string \<Rightarrow> string \<Rightarrow> bool" where
  "contains [] sub = (sub = [])"
| "contains (c # cs) sub = (startswith (c # cs) sub \<or> contains cs sub)"

definition endswith :: "string \<Rightarrow> string \<Rightarrow> bool" where
  "endswith s suf = (length suf \<le> length s \<and> drop (length s - length suf) s = suf)"

text \<open>
  Python's \<^verbatim>\<open>s.replace(old, new)\<close> for a non-empty \<open>old\<close>: occurrences are replaced
  from the left and do not overlap. The counter is the number of characters of a
  matched occurrence that are still to be skipped.
\<close>

fun replace_from :: "string \<Rightarrow> string \<Rightarrow> nat \<Rightarrow> string \<Rightarrow> string" where
  "replace_from old new k [] = []"
| "replace_from old new k (c # cs) =
     (if 0 < k then replace_from old new (k - 1) cs
      else if startswith (c # cs) old then new @ replace_from old new (length old - 1) cs
      else c # replace_from old new 0 cs)"

definition str_replace :: "string \<Rightarrow> string \<Rightarrow> string \<Rightarrow> string" where
  "str_replace s old new = replace_from old new 0 s"

definition error_suffix :: string where
  "error_suffix = '' - ERROR''"

datatype proc_state = NoProc | Alive | Exited int

datatype overlay_cb = AppendOutput string | FinalizeOutput bool bool | CloseOverlay

text \<open>
  The overlay window: its title, the text widget, the input entry (whether it is
  enabled, and the text typed into it), the flags of the source, the process, what has
  been written to its standard input, the reader thread (whether it still runs, and its
  local \<^verbatim>\<open>output_received\<close>), the error boxes shown, and the scheduler.
\<close>

record overlay =
  ov_title :: string
  ov_text :: string
  ov_input_enabled :: bool
  ov_input_var :: string
  ov_waiting_for_input :: bool
  ov_error_occurred :: bool
  ov_user_closed :: bool
  ov_proc :: proc_state
  ov_stdin :: "string list"
  ov_reading :: bool
  ov_output_received :: bool
  ov_visible :: bool
  ov_errorboxes :: "string list"
  ov_sched :: "overlay_cb scheduler"

text \<open>
  What launching meets: which paths exist, the interpreter that
  \<^verbatim>\<open>get_python_executable\<close> returns (empty when none is found), and whether
  \<^verbatim>\<open>subprocess.Popen\<close> starts the process or raises with a message.
\<close>

record launch_env =
  path_exists :: "string \<Rightarrow> bool"
  python_exe :: string
  popen_error :: "string option"

definition overlay_init :: "(string \<Rightarrow> string) \<Rightarrow> string option \<Rightarrow> overlay" where
  "overlay_init tr btn_label =
     \<lparr>ov_title = (case btn_label of
                    None \<Rightarrow> tr ''Script Output''
                  | Some l \<Rightarrow> if l = [] then tr ''Script Output''
                              else tr ''Script Output'' @ '' - '' @ l),
      ov_text = [], ov_input_enabled = True, ov_input_var = [],
      ov_waiting_for_input = False, ov_error_occurred = False, ov_user_closed = False,
      ov_proc = NoProc, ov_stdin = [], ov_reading = False, ov_output_received = False,
      ov_visible = True, ov_errorboxes = [], ov_sched = sched_init\<rparr>"

text \<open>The four places of \<^verbatim>\<open>run_script\<close> that report a failed launch do the same thing.\<close>

definition launch_error :: "(string \<Rightarrow> string) \<Rightarrow> string \<Rightarrow> overlay \<Rightarrow> overlay" where
  "launch_error tr error_msg ov =
     ov\<lparr>ov_text := ov_text ov @ tr ''Error:'' @ '' '' @ error_msg @ newline,
        ov_input_enabled := False,
        ov_error_occurred := True,
        ov_title := ov_title ov @ error_suffix,
        ov_errorboxes := ov_errorboxes ov @ [error_msg]\<rparr>"

definition run_script_overlay ::
  "(string \<Rightarrow> string) \<Rightarrow> launch_env \<Rightarrow> string \<Rightarrow> overlay \<Rightarrow> overlay" where
  "run_script_overlay tr env script_path ov0 =
     (let ov = ov0\<lparr>ov_text := ''Running...'' @ newline\<rparr>;
          started = ov\<lparr>ov_proc := Alive, ov_waiting_for_input := False, ov_reading := True,
                       ov_visible := True\<rparr>;
          spawn = (case popen_error env of
                     Some e \<Rightarrow> launch_error tr (''Failed to start script: '' @ e) ov
                   | None \<Rightarrow> started)
      in if \<not> path_exists env script_path
         then launch_error tr (''Script file not found: '' @ script_path) ov
         else if endswith script_path ''.py'' then
           (if python_exe env = []
            then launch_error tr
                   (tr ''No Python executable found. Please configure Python in settings.'') ov
            else if \<not> path_exists env (python_exe env) \<and>
                    python_exe env \<noteq> ''python'' \<and> python_exe env \<noteq> ''python3''
            then launch_error tr (''Python executable not found: '' @ python_exe env) ov
            else spawn)
         else spawn)"

definition create_overlay ::
  "(string \<Rightarrow> string) \<Rightarrow> launch_env \<Rightarrow> string option \<Rightarrow> string \<Rightarrow> overlay" where
  "create_overlay tr env btn_label script_path =
     run_script_overlay tr env script_path (overlay_init tr btn_label)"

text \<open>
  The classification of the exit code in \<^verbatim>\<open>read_output\<close>: the value of its local
  \<^verbatim>\<open>error_occurred\<close> once the process has ended with \<open>exit_code\<close>.
\<close>

definition exit_error_occurred :: "bool \<Rightarrow> int \<Rightarrow> bool" where
  "exit_error_occurred user_closed exit_code =
     (if exit_code \<noteq> 0 then
        (if user_closed then False
         else if exit_code \<in> set [-1, 1, 2, 3, 15] then False
         else True)
      else False)"

text \<open>
  The end of \<^verbatim>\<open>read_output\<close>, after the last line: the exit code is classified, a
  failure line is queued for a code classified as an error, and \<^verbatim>\<open>_finalize_output\<close>
  is queued with the thread's two flags.
\<close>

definition read_output_exit :: "(string \<Rightarrow> string) \<Rightarrow> int \<Rightarrow> overlay \<Rightarrow> overlay" where
  "read_output_exit tr exit_code ov =
     (let error_occurred = exit_error_occurred (ov_user_closed ov) exit_code;
          s1 = (if error_occurred
                then snd (after 0 (AppendOutput (newline @ tr ''Script failed with exit code:''
                                      @ '' '' @ str_int exit_code @ newline)) (ov_sched ov))
                else ov_sched ov);
          s2 = snd (after 0 (FinalizeOutput (ov_output_received ov) error_occurred) s1)
      in ov\<lparr>ov_sched := s2, ov_reading := False\<rparr>)"

text \<open>The \<^verbatim>\<open>except\<close> branch of \<^verbatim>\<open>read_output\<close>: reading raised.\<close>

definition read_output_failed :: "(string \<Rightarrow> string) \<Rightarrow> string \<Rightarrow> overlay \<Rightarrow> overlay" where
  "read_output_failed tr e ov =
     (let error_msg = ''Error reading script output: '' @ e;
          s1 = snd (after 0 (AppendOutput (newline @ tr ''Error:'' @ '' '' @ error_msg @ newline))
                      (ov_sched ov))
      in ov\<lparr>ov_sched := s1, ov_input_enabled := False, ov_error_occurred := True,
            ov_title := ov_title ov @ error_suffix,
            ov_errorboxes := ov_errorboxes ov @ [error_msg], ov_reading := False\<rparr>)"

definition append_output :: "string \<Rightarrow> overlay \<Rightarrow> overlay" where
  "append_output line ov = ov\<lparr>ov_text := ov_text ov @ line\<rparr>"

definition finalize_output ::
  "(string \<Rightarrow> string) \<Rightarrow> bool \<Rightarrow> bool \<Rightarrow> overlay \<Rightarrow> overlay" where
  "finalize_output tr output_received error_occurred ov =
     (let ov1 = ov\<lparr>ov_input_enabled := False\<rparr>;
          ov2 = (if \<not> output_received
                 then ov1\<lparr>ov_text := ov_text ov1 @ tr (''(No output generated)'' @ newline)\<rparr>
                 else ov1)
      in if error_occurred \<or> ov_error_occurred ov2 then
           (if \<not> contains (ov_title ov2) error_suffix
            then ov2\<lparr>ov_title := ov_title ov2 @ error_suffix\<rparr>
            else ov2)
         else
           let ov3 = (if contains (ov_title ov2) error_suffix
                      then ov2\<lparr>ov_title := str_replace (ov_title ov2) error_suffix []\<rparr>
                      else ov2)
           in ov3\<lparr>ov_sched := snd (after 2000 CloseOverlay (ov_sched ov3))\<rparr>)"

text \<open>
  \<^verbatim>\<open>send_input\<close>: while the process lives, the entry's text and a newline are written
  to its standard input (a write that raises is logged), and the entry is emptied.
\<close>

definition send_input :: "bool \<Rightarrow> overlay \<Rightarrow> overlay" where
  "send_input write_ok ov =
     (if ov_proc ov = Alive then
        let user_input = ov_input_var ov @ newline;
            ov1 = (if write_ok then ov\<lparr>ov_stdin := ov_stdin ov @ [user_input]\<rparr> else ov)
        in ov1\<lparr>ov_input_var := []\<rparr>
      else ov)"

text \<open>
  \<^verbatim>\<open>close\<close>: the flag is set first; a live process is terminated (killed after two
  seconds) and ends with the code the operating system gives it; the window is hidden.
\<close>

definition close_overlay :: "int \<Rightarrow> overlay \<Rightarrow> overlay" where
  "close_overlay code ov =
     (let ov1 = ov\<lparr>ov_user_closed := True\<rparr>;
          ov2 = (if ov_proc ov1 = Alive then ov1\<lparr>ov_proc := Exited code\<rparr> else ov1)
      in ov2\<lparr>ov_visible := False\<rparr>)"

text \<open>
  What happens to an overlay: the reader thread reads a line, the process ends by
  itself, the reader thread finds the stream closed and finishes, reading raises, a
  queued callback fires, the user types into the entry, presses Return in it, or closes
  the window (with the exit code a terminated process would end with).
\<close>

datatype overlay_event =
    OvLine string
  | OvProcExit int
  | OvReaderDone
  | OvReadError string
  | OvFire handle
  | OvType string
  | OvSendInput bool
  | OvClose int

definition overlay_fire :: "(string \<Rightarrow> string) \<Rightarrow> handle \<Rightarrow> overlay \<Rightarrow> overlay" where
  "overlay_fire tr h ov =
     (case callback_of h (ov_sched ov) of
        None \<Rightarrow> ov
      | Some cb \<Rightarrow>
          let ov1 = ov\<lparr>ov_sched := after_cancel h (ov_sched ov)\<rparr>
          in (case cb of
                AppendOutput line \<Rightarrow> append_output line ov1
              | FinalizeOutput output_received error_occurred \<Rightarrow>
                  finalize_output tr output_received error_occurred ov1
              | CloseOverlay \<Rightarrow> close_overlay 0 ov1))"

fun overlay_step :: "(string \<Rightarrow> string) \<Rightarrow> overlay \<Rightarrow> overlay_event \<Rightarrow> overlay" where
  "overlay_step tr ov (OvLine line) =
     (if ov_reading ov \<and> line \<noteq> []
      then ov\<lparr>ov_output_received := True,
              ov_sched := snd (after 0 (AppendOutput line) (ov_sched ov))\<rparr>
      else ov)"
| "overlay_step tr ov (OvProcExit code) =
     (if ov_proc ov = Alive then ov\<lparr>ov_proc := Exited code\<rparr> else ov)"
| "overlay_step tr ov OvReaderDone =
     (if ov_reading ov then
        (case ov_proc ov of
           Exited code \<Rightarrow> read_output_exit tr code ov
         | Alive \<Rightarrow> ov
         | NoProc \<Rightarrow> ov)
      else ov)"
| "overlay_step tr ov (OvReadError e) =
     (if ov_reading ov then read_output_failed tr e ov else ov)"
| "overlay_step tr ov (OvFire h) = overlay_fire tr h ov"
| "overlay_step tr ov (OvType s) =
     (if ov_input_enabled ov then ov\<lparr>ov_input_var := s\<rparr> else ov)"
| "overlay_step tr ov (OvSendInput write_ok) =
     (if ov_input_enabled ov then send_input write_ok ov else ov)"
| "overlay_step tr ov (OvClose code) = close_overlay code ov"


text \<open>
  A session whose process has ended with \<open>exit_code\<close>, once the reader thread has
  finished and the callbacks it queued have fired in order.
\<close>

definition overlay_after_exit :: "(string \<Rightarrow> string) \<Rightarrow> int \<Rightarrow> overlay \<Rightarrow> overlay" where
  "overlay_after_exit tr exit_code ov =
     (let n = next_id (ov_sched ov);
          ov1 = read_output_exit tr exit_code ov;
          ov2 = overlay_fire tr n ov1
      in if exit_error_occurred (ov_user_closed ov) exit_code
         then overlay_fire tr (Suc n) ov2 else ov2)"

definition launch_env_ok :: launch_env where
  "launch_env_ok = \<lparr>path_exists = (\<lambda>p. True), python_exe = ''python3'', popen_error = None\<rparr>"

definition overlay_example :: overlay where
  "overlay_example = create_overlay untranslated launch_env_ok (Some ''Backup'') ''backup.py''"

section \<open>Action dispatcher (button\_handler\_factory.py, button\_manager.py)\<close>

record button_cfg =
  cfg_type :: "string option"
  cfg_label :: "string option"

text \<open>
  An exception, with the text that \<^verbatim>\<open>str(e)\<close> gives. Exceptions are instances of
  \<^verbatim>\<open>Exception\<close>; \<^verbatim>\<open>SystemExit\<close> and \<^verbatim>\<open>KeyboardInterrupt\<close>, which no \<^verbatim>\<open>except Exception\<close>
  clause catches, are not modelled.
\<close>

datatype py_exc = Exc string

fun exc_text :: "py_exc \<Rightarrow> string" where
  "exc_text (Exc m) = m"

datatype log_entry = LogDebug string | LogInfo string | LogWarning string | LogError string

text \<open>A handler instance, named by the type it was built for.\<close>

datatype handler = Handler string

datatype import_outcome = Imported | ImportFails string | ImportRaises py_exc

text \<open>
  What the handler modules do: importing a handler's module succeeds, raises
  \<^verbatim>\<open>ImportError\<close> or raises something else; a handler's constructor returns or raises;
  a handler's \<^verbatim>\<open>execute\<close> returns or raises.
\<close>

record dispatch_env =
  import_handler :: "string \<Rightarrow> import_outcome"
  construct_handler :: "string \<Rightarrow> py_exc option"
  handler_execute :: "handler \<Rightarrow> button_cfg \<Rightarrow> py_exc option"

text \<open>The factory's cache, the log, and the error boxes shown to the user.\<close>

record dispatcher =
  handlers_cache :: "string \<rightharpoonup> handler"
  app_log :: "log_entry list"
  app_errorboxes :: "string list"

definition dispatcher_init :: dispatcher where
  "dispatcher_init = \<lparr>handlers_cache = Map.empty, app_log = [], app_errorboxes = []\<rparr>"

definition logged :: "log_entry \<Rightarrow> dispatcher \<Rightarrow> dispatcher" where
  "logged e d = d\<lparr>app_log := app_log d @ [e]\<rparr>"

definition get_supported_types :: "string list" where
  "get_supported_types =
     [''python_script'', ''website'', ''music'', ''post'', ''shell'', ''llm'', ''app_launcher'',
      ''network_speed'', ''ping'', ''pomodoro'', ''http_test'', ''color_picker'']"

definition cfg_type_of :: "button_cfg \<Rightarrow> string" where
  "cfg_type_of cfg = (case cfg_type cfg of Some t \<Rightarrow> t | None \<Rightarrow> ''python_script'')"

definition cfg_label_of :: "button_cfg \<Rightarrow> string" where
  "cfg_label_of cfg = (case cfg_label cfg of Some l \<Rightarrow> l | None \<Rightarrow> ''Unknown'')"

text \<open>
  \<^verbatim>\<open>_get_handler_class\<close>: the class for a known type, \<open>None\<close> for an unknown type or a
  failed import (both logged); any other exception of the import propagates.
\<close>

definition get_handler_class ::
  "dispatch_env \<Rightarrow> string \<Rightarrow> dispatcher \<Rightarrow> (py_exc + string option) \<times> dispatcher" where
  "get_handler_class env handler_type d =
     (if handler_type \<in> set get_supported_types then
        (case import_handler env handler_type of
           Imported \<Rightarrow> (Inr (Some handler_type), d)
         | ImportFails m \<Rightarrow>
             (Inr None,
              logged (LogError (''Failed to import handler '' @ handler_type @ '': '' @ m)) d)
         | ImportRaises e \<Rightarrow> (Inl e, d))
      else (Inr None, logged (LogWarning (''Unknown handler type: '' @ handler_type)) d))"

definition ensure_handler_loaded ::
  "dispatch_env \<Rightarrow> string \<Rightarrow> dispatcher \<Rightarrow> (py_exc + unit) \<times> dispatcher" where
  "ensure_handler_loaded env handler_type d =
     (if handler_type \<notin> dom (handlers_cache d) then
        (case get_handler_class env handler_type d of
           (Inl e, d1) \<Rightarrow> (Inl e, d1)
         | (Inr None, d1) \<Rightarrow> (Inr (), d1)
         | (Inr (Some handler_class), d1) \<Rightarrow>
             (case construct_handler env handler_class of
                Some e \<Rightarrow> (Inl e, d1)
              | None \<Rightarrow>
                  (Inr (),
                   logged (LogDebug (''Lazy loaded handler: '' @ handler_type))
                     (d1\<lparr>handlers_cache := (handlers_cache d1)(handler_type \<mapsto> Handler handler_class)\<rparr>))))
      else (Inr (), d))"

definition get_handler ::
  "dispatch_env \<Rightarrow> string \<Rightarrow> dispatcher \<Rightarrow> (py_exc + handler option) \<times> dispatcher" where
  "get_handler env button_type d =
     (case ensure_handler_loaded env button_type d of
        (Inl e, d1) \<Rightarrow> (Inl e, d1)
      | (Inr u, d1) \<Rightarrow>
          (case handlers_cache d1 button_type of
             Some h \<Rightarrow> (Inr (Some h), d1)
           | None \<Rightarrow>
               (let d2 = logged (LogWarning (''No handler found for button type: '' @ button_type)) d1
                in case ensure_handler_loaded env ''python_script'' d2 of
                     (Inl e, d3) \<Rightarrow> (Inl e, d3)
                   | (Inr u, d3) \<Rightarrow> (Inr (handlers_cache d3 ''python_script''), d3))))"

text \<open>
  \<^verbatim>\<open>execute_button\<close>: an exception of the handler's \<^verbatim>\<open>execute\<close> is logged and raised
  again, so it reaches the caller.
\<close>

definition execute_button ::
  "dispatch_env \<Rightarrow> button_cfg \<Rightarrow> dispatcher \<Rightarrow> (py_exc + unit) \<times> dispatcher" where
  "execute_button env cfg d =
     (let button_type = cfg_type_of cfg
      in case get_handler env button_type d of
           (Inl e, d1) \<Rightarrow> (Inl e, d1)
         | (Inr None, d1) \<Rightarrow>
             (Inr (),
              logged (LogError (''No handler available for button type: '' @ button_type)) d1)
         | (Inr (Some h), d1) \<Rightarrow>
             (case handler_execute env h cfg of
                Some e \<Rightarrow>
                  (Inl e,
                   logged (LogError (''Error executing button '' @ cfg_label_of cfg @ '': ''
                                     @ exc_text e)) d1)
              | None \<Rightarrow> (Inr (), d1)))"

text \<open>
  \<^verbatim>\<open>ButtonManager.run_script\<close>, the only caller of \<^verbatim>\<open>execute_button\<close> and the function
  that clicks and shortcuts are bound to: an exception is logged and shown in an error
  box.
\<close>

definition run_script :: "dispatch_env \<Rightarrow> button_cfg \<Rightarrow> dispatcher \<Rightarrow> (py_exc + unit) \<times> dispatcher" where
  "run_script env cfg d =
     (case execute_button env cfg d of
        (Inl e, d1) \<Rightarrow>
          (Inr (),
           (logged (LogError (''Failed to execute button '' @ cfg_label_of cfg @ '': ''
                              @ exc_text e)) d1)
             \<lparr>app_errorboxes := app_errorboxes d1 @ [''Failed to execute button: '' @ exc_text e]\<rparr>)
      | (Inr u, d1) \<Rightarrow> (Inr (), d1))"

definition dispatch_env_failing :: dispatch_env where
  "dispatch_env_failing =
     \<lparr>import_handler = (\<lambda>t. Imported), construct_handler = (\<lambda>t. None),
      handler_execute = (\<lambda>h cfg. Some (Exc ''boom''))\<rparr>"

definition button_cfg_example :: button_cfg where
  "button_cfg_example = \<lparr>cfg_type = Some ''shell'', cfg_label = Some ''Deploy''\<rparr>"

section \<open>Timer button (timer\_manager.py)\<close>

text \<open>
  \<open>total_seconds\<close> is the number that \<^verbatim>\<open>create_timer_button\<close> reads from the
  configured duration \<^verbatim>\<open>h:mm:ss\<close> (60 when it does not parse).
\<close>

record timer_cfg =
  timer_label :: "string option"
  total_seconds :: int

datatype timer_cb = TimerTick

text \<open>
  The closure of \<^verbatim>\<open>create_timer_button\<close>: the \<^verbatim>\<open>state\<close> dictionary, the button's
  text, the scheduler, the number of completion sounds played and the number of times the
  edit dialog was opened.
\<close>

record timer_button =
  tm_running :: bool
  tm_paused :: bool
  tm_remaining :: int
  tm_job :: "handle option"
  tm_text :: string
  tm_sched :: "timer_cb scheduler"
  tm_sounds :: nat
  tm_edits :: nat

definition timer_orig_label :: "(string \<Rightarrow> string) \<Rightarrow> timer_cfg \<Rightarrow> string" where
  "timer_orig_label tr cfg = (case timer_label cfg of Some l \<Rightarrow> l | None \<Rightarrow> tr ''Timer'')"


definition timer_update_label ::
  "(string \<Rightarrow> string) \<Rightarrow> timer_cfg \<Rightarrow> timer_button \<Rightarrow> timer_button" where
  "timer_update_label tr cfg b =
     (if tm_running b then
        let mins = tm_remaining b div 60; secs = tm_remaining b mod 60;
            hours = mins div 60; mins' = mins mod 60
        in b\<lparr>tm_text := str_int hours @ '':'' @ fmt_02d mins' @ '':'' @ fmt_02d secs\<rparr>
      else b\<lparr>tm_text := timer_orig_label tr cfg\<rparr>)"











section \<open>Pomodoro button (pomodoro\_handler.py)\<close>

record pomodoro_cfg =
  pomodoro_label :: "string option"
  work_duration :: "int option"
  short_break_duration :: "int option"
  long_break_duration :: "int option"
  sessions_before_long_break :: "int option"
  auto_advance :: "bool option"

definition work_seconds :: "pomodoro_cfg \<Rightarrow> int" where
  "work_seconds cfg = (case work_duration cfg of Some m \<Rightarrow> m | None \<Rightarrow> 25) * 60"

definition short_break_seconds :: "pomodoro_cfg \<Rightarrow> int" where
  "short_break_seconds cfg = (case short_break_duration cfg of Some m \<Rightarrow> m | None \<Rightarrow> 5) * 60"

definition long_break_seconds :: "pomodoro_cfg \<Rightarrow> int" where
  "long_break_seconds cfg = (case long_break_duration cfg of Some m \<Rightarrow> m | None \<Rightarrow> 15) * 60"

definition sessions_before :: "pomodoro_cfg \<Rightarrow> int" where
  "sessions_before cfg = (case sessions_before_long_break cfg of Some n \<Rightarrow> n | None \<Rightarrow> 4)"

definition auto_advance_of :: "pomodoro_cfg \<Rightarrow> bool" where
  "auto_advance_of cfg = (case auto_advance cfg of Some a \<Rightarrow> a | None \<Rightarrow> True)"

datatype pom_phase = Ready | Work | ShortBreak | LongBreak | Complete

datatype pom_cb = PomTick | PomClearCompleteMessage | PomAdvancePhase

text \<open>
  The lines that the handler writes to the log, by the message they carry:
  \<^verbatim>\<open>Starting long break after <n> work sessions\<close>,
  \<^verbatim>\<open>Starting short break after work session <n>\<close>, \<^verbatim>\<open>Starting work session <n>\<close>,
  \<^verbatim>\<open>Starting Pomodoro work session\<close>, \<^verbatim>\<open>Resuming Pomodoro timer\<close>,
  \<^verbatim>\<open>Pausing Pomodoro timer\<close>, \<^verbatim>\<open>Skipping current Pomodoro phase\<close> and
  \<^verbatim>\<open>Resetting Pomodoro timer\<close>.
\<close>

datatype pom_log =
    StartingLongBreak int
  | StartingShortBreak int
  | StartingWorkSession int
  | StartingPomodoro
  | Resuming
  | Pausing
  | Skipping
  | Resetting

record pom_button =
  pm_running :: bool
  pm_paused :: bool
  pm_job :: "handle option"
  pm_clear_job :: "handle option"
  pm_phase :: pom_phase
  pm_remaining :: int
  pm_sessions_completed :: int
  pm_current_session :: int
  pm_text :: string
  pm_sched :: "pom_cb scheduler"
  pm_sounds :: nat
  pm_log :: "pom_log list"
  pm_edits :: nat

definition pom_orig_label :: "(string \<Rightarrow> string) \<Rightarrow> pomodoro_cfg \<Rightarrow> string" where
  "pom_orig_label tr cfg = (case pomodoro_label cfg of Some l \<Rightarrow> l | None \<Rightarrow> tr ''Pomodoro'')"

definition create_pomodoro_button :: "(string \<Rightarrow> string) \<Rightarrow> pomodoro_cfg \<Rightarrow> pom_button" where
  "create_pomodoro_button tr cfg =
     \<lparr>pm_running = False, pm_paused = False, pm_job = None, pm_clear_job = None,
      pm_phase = Ready, pm_remaining = work_seconds cfg, pm_sessions_completed = 0,
      pm_current_session = 1, pm_text = pom_orig_label tr cfg, pm_sched = sched_init,
      pm_sounds = 0, pm_log = [], pm_edits = 0\<rparr>"

definition format_time :: "int \<Rightarrow> string" where
  "format_time seconds = fmt_02d (seconds div 60) @ '':'' @ fmt_02d (seconds mod 60)"

definition pom_update_label ::
  "(string \<Rightarrow> string) \<Rightarrow> pomodoro_cfg \<Rightarrow> pom_button \<Rightarrow> pom_button" where
  "pom_update_label tr cfg b =
     (let time_str = format_time (pm_remaining b);
          active = (pm_running b \<and> \<not> pm_paused b)
      in case pm_phase b of
           Ready \<Rightarrow> b\<lparr>pm_text := pom_orig_label tr cfg\<rparr>
         | Work \<Rightarrow>
             (if active
              then b\<lparr>pm_text := ''Work: '' @ time_str @ newline @ ''Session ''
                        @ str_int (pm_current_session b) @ ''/'' @ str_int (sessions_before cfg)\<rparr>
              else b\<lparr>pm_text := ''Work: '' @ time_str @ newline @ tr ''Paused''\<rparr>)
         | ShortBreak \<Rightarrow>
             (if active then b\<lparr>pm_text := tr ''Short Break'' @ '': '' @ time_str\<rparr>
              else b\<lparr>pm_text := tr ''Short Break'' @ '': '' @ time_str @ newline @ tr ''Paused''\<rparr>)
         | LongBreak \<Rightarrow>
             (if active then b\<lparr>pm_text := tr ''Long Break'' @ '': '' @ time_str\<rparr>
              else b\<lparr>pm_text := tr ''Long Break'' @ '': '' @ time_str @ newline @ tr ''Paused''\<rparr>)
         | Complete \<Rightarrow>
             (if 0 < pm_sessions_completed b
              then b\<lparr>pm_text := tr ''Work Complete!'' @ newline
                        @ str_int (pm_sessions_completed b) @ '' sessions''\<rparr>
              else b\<lparr>pm_text := tr ''Break Complete!''\<rparr>))"

definition clear_complete_message ::
  "(string \<Rightarrow> string) \<Rightarrow> pomodoro_cfg \<Rightarrow> pom_button \<Rightarrow> pom_button" where
  "clear_complete_message tr cfg b =
     pom_update_label tr cfg (b\<lparr>pm_phase := Ready, pm_remaining := work_seconds cfg\<rparr>)"

text \<open>
  \<^verbatim>\<open>tick\<close>. When the count reaches zero the phase becomes \<^verbatim>\<open>complete\<close>, the sound is
  played, the 60 s clear job is replaced and, with \<^verbatim>\<open>auto_advance\<close>, \<^verbatim>\<open>advance_phase\<close>
  is queued for 3 s later; the handle of that last callback is not kept.
\<close>

definition pom_tick :: "(string \<Rightarrow> string) \<Rightarrow> pomodoro_cfg \<Rightarrow> pom_button \<Rightarrow> pom_button" where
  "pom_tick tr cfg b =
     (if \<not> pm_running b \<or> pm_paused b then b
      else if 0 < pm_remaining b then
        let b1 = pom_update_label tr cfg (b\<lparr>pm_remaining := pm_remaining b - 1\<rparr>);
            (h, s) = after 1000 PomTick (pm_sched b1)
        in b1\<lparr>pm_job := Some h, pm_sched := s\<rparr>
      else
        let b1 = pom_update_label tr cfg (b\<lparr>pm_running := False, pm_phase := Complete\<rparr>);
            b2 = b1\<lparr>pm_sounds := Suc (pm_sounds b1)\<rparr>;
            s1 = cancel_opt (pm_clear_job b2) (pm_sched b2);
            (h, s2) = after 60000 PomClearCompleteMessage s1;
            s3 = (if auto_advance_of cfg then snd (after 3000 PomAdvancePhase s2) else s2)
        in b2\<lparr>pm_clear_job := Some h, pm_sched := s3\<rparr>)"

text \<open>
  \<^verbatim>\<open>advance_phase\<close>. The remainder by \<^verbatim>\<open>sessions_before_long_break\<close> raises
  \<^verbatim>\<open>ZeroDivisionError\<close> when that number is zero, after the session count has been
  incremented; the result carries the exception, if any, and the state it leaves.
\<close>

definition advance_phase ::
  "(string \<Rightarrow> string) \<Rightarrow> pomodoro_cfg \<Rightarrow> pom_button \<Rightarrow> py_exc option \<times> pom_button" where
  "advance_phase tr cfg b =
     (let finish = (\<lambda>b'. (None, pom_tick tr cfg
                        (pom_update_label tr cfg (b'\<lparr>pm_running := True, pm_paused := False\<rparr>))))
      in if pm_phase b = Work then
           let b1 = b\<lparr>pm_sessions_completed := pm_sessions_completed b + 1\<rparr>
           in if sessions_before cfg = 0 then (Some (Exc ''ZeroDivisionError''), b1)
              else if pm_sessions_completed b1 mod sessions_before cfg = 0 then
                finish (b1\<lparr>pm_phase := LongBreak, pm_remaining := long_break_seconds cfg,
                             pm_log := pm_log b1 @ [StartingLongBreak (pm_sessions_completed b1)]\<rparr>)
              else
                finish (b1\<lparr>pm_phase := ShortBreak, pm_remaining := short_break_seconds cfg,
                             pm_log := pm_log b1 @ [StartingShortBreak (pm_sessions_completed b1)]\<rparr>)
         else if pm_phase b = ShortBreak \<or> pm_phase b = LongBreak then
           finish (b\<lparr>pm_phase := Work, pm_remaining := work_seconds cfg,
                       pm_current_session := pm_sessions_completed b + 1,
                       pm_log := pm_log b @ [StartingWorkSession (pm_sessions_completed b + 1)]\<rparr>)
         else finish b)"

definition start_pomodoro ::
  "(string \<Rightarrow> string) \<Rightarrow> pomodoro_cfg \<Rightarrow> pom_button \<Rightarrow> pom_button" where
  "start_pomodoro tr cfg b =
     (let b1 = (if pm_phase b = Ready then
                  b\<lparr>pm_phase := Work, pm_remaining := work_seconds cfg, pm_running := True,
                     pm_paused := False, pm_current_session := 1,
                     pm_log := pm_log b @ [StartingPomodoro]\<rparr>
                else if pm_paused b then
                  b\<lparr>pm_paused := False, pm_log := pm_log b @ [Resuming]\<rparr>
                else b\<lparr>pm_paused := True, pm_log := pm_log b @ [Pausing]\<rparr>);
          b2 = pom_update_label tr cfg b1
      in if pm_running b2 \<and> \<not> pm_paused b2 then pom_tick tr cfg b2 else b2)"

definition skip_phase ::
  "(string \<Rightarrow> string) \<Rightarrow> pomodoro_cfg \<Rightarrow> pom_button \<Rightarrow> py_exc option \<times> pom_button" where
  "skip_phase tr cfg b =
     (if pm_running b then
        let b1 = (case pm_job b of
                    Some h \<Rightarrow> b\<lparr>pm_sched := after_cancel h (pm_sched b), pm_job := None\<rparr>
                  | None \<Rightarrow> b)
        in (case advance_phase tr cfg b1 of
              (Some e, b2) \<Rightarrow> (Some e, b2)
            | (None, b2) \<Rightarrow> (None, b2\<lparr>pm_log := pm_log b2 @ [Skipping]\<rparr>))
      else (None, b))"

definition reset_pomodoro ::
  "(string \<Rightarrow> string) \<Rightarrow> pomodoro_cfg \<Rightarrow> pom_button \<Rightarrow> pom_button" where
  "reset_pomodoro tr cfg b =
     (let b1 = (case pm_job b of
                  Some h \<Rightarrow> b\<lparr>pm_sched := after_cancel h (pm_sched b), pm_job := None\<rparr>
                | None \<Rightarrow> b);
          b2 = (case pm_clear_job b1 of
                  Some h \<Rightarrow> b1\<lparr>pm_sched := after_cancel h (pm_sched b1), pm_clear_job := None\<rparr>
                | None \<Rightarrow> b1);
          b3 = pom_update_label tr cfg
                 (b2\<lparr>pm_running := False, pm_paused := False, pm_phase := Ready,
                      pm_remaining := work_seconds cfg, pm_sessions_completed := 0,
                      pm_current_session := 1\<rparr>)
      in b3\<lparr>pm_log := pm_log b3 @ [Resetting]\<rparr>)"

text \<open>
  The bindings of the pomodoro button: the primary click runs \<^verbatim>\<open>start_pomodoro\<close>, the
  secondary click \<^verbatim>\<open>skip_phase\<close> and then, bound in addition, the edit dialog, the
  double click \<^verbatim>\<open>reset_pomodoro\<close>. An exception that leaves a callback is reported by
  Tk and the state stays as the callback left it.
\<close>

datatype pom_event = PomClick | PomRightClick | PomDoubleClick | PomFire handle

definition pom_fire ::
  "(string \<Rightarrow> string) \<Rightarrow> pomodoro_cfg \<Rightarrow> handle \<Rightarrow> pom_button \<Rightarrow> pom_button" where
  "pom_fire tr cfg h b =
     (case callback_of h (pm_sched b) of
        None \<Rightarrow> b
      | Some cb \<Rightarrow>
          let b1 = b\<lparr>pm_sched := after_cancel h (pm_sched b)\<rparr>
          in (case cb of
                PomTick \<Rightarrow> pom_tick tr cfg b1
              | PomClearCompleteMessage \<Rightarrow> clear_complete_message tr cfg b1
              | PomAdvancePhase \<Rightarrow> snd (advance_phase tr cfg b1)))"

fun pom_step ::
  "(string \<Rightarrow> string) \<Rightarrow> pomodoro_cfg \<Rightarrow> pom_button \<Rightarrow> pom_event \<Rightarrow> pom_button" where
  "pom_step tr cfg b PomClick = start_pomodoro tr cfg b"
| "pom_step tr cfg b PomRightClick =
     (let b1 = snd (skip_phase tr cfg b) in b1\<lparr>pm_edits := Suc (pm_edits b1)\<rparr>)"
| "pom_step tr cfg b PomDoubleClick = reset_pomodoro tr cfg b"
| "pom_step tr cfg b (PomFire h) = pom_fire tr cfg h b"

definition pom_run ::
  "(string \<Rightarrow> string) \<Rightarrow> pomodoro_cfg \<Rightarrow> pom_event list \<Rightarrow> pom_button" where
  "pom_run tr cfg evs = foldl (pom_step tr cfg) (create_pomodoro_button tr cfg) evs"

text \<open>
  Reading the log: the entries written since the last reset, and among them the breaks
  that were started. The entry expected for the break after the \<open>k\<close>-th completed work
  session, when a long break is due every \<open>n\<close> sessions.
\<close>

definition since_reset :: "pom_log list \<Rightarrow> pom_log list" where
  "since_reset l = rev (takeWhile (\<lambda>e. e \<noteq> Resetting) (rev l))"

fun is_break_start :: "pom_log \<Rightarrow> bool" where
  "is_break_start (StartingLongBreak k) = True"
| "is_break_start (StartingShortBreak k) = True"
| "is_break_start e = False"

definition breaks_started :: "pom_log list \<Rightarrow> pom_log list" where
  "breaks_started l = filter is_break_start (since_reset l)"

definition expected_break :: "int \<Rightarrow> int \<Rightarrow> pom_log" where
  "expected_break n k = (if k mod n = 0 then StartingLongBreak k else StartingShortBreak k)"

text \<open>The breaks logged since the last reset are those of the sessions counted so far.\<close>

definition break_inv :: "pomodoro_cfg \<Rightarrow> pom_button \<Rightarrow> bool" where
  "break_inv cfg b \<longleftrightarrow>
     0 \<le> pm_sessions_completed b \<and>
     breaks_started (pm_log b)
       = map (expected_break (sessions_before cfg)) [1..pm_sessions_completed b]"

definition pomodoro_cfg_default :: pomodoro_cfg where
  "pomodoro_cfg_default =
     \<lparr>pomodoro_label = None, work_duration = None, short_break_duration = None,
      long_break_duration = None, sessions_before_long_break = None, auto_advance = None\<rparr>"

definition pomodoro_cfg_two :: pomodoro_cfg where
  "pomodoro_cfg_two = pomodoro_cfg_default\<lparr>sessions_before_long_break := Some 2\<rparr>"

text \<open>Letting time pass: the oldest queued callback of a kind fires.\<close>

definition fire_callback ::
  "(string \<Rightarrow> string) \<Rightarrow> pomodoro_cfg \<Rightarrow> pom_cb \<Rightarrow> pom_button \<Rightarrow> pom_button" where
  "fire_callback tr cfg cb b =
     (case filter (\<lambda>e. snd (snd e) = cb) (pending (pm_sched b)) of
        [] \<Rightarrow> b
      | e # _ \<Rightarrow> pom_fire tr cfg (fst e) b)"

text \<open>
  A button in the first work session after a fresh start, with \<open>r\<close> seconds left and
  its next tick queued under handle \<open>n\<close>.
\<close>

definition pom_first_session ::
  "(string \<Rightarrow> string) \<Rightarrow> pomodoro_cfg \<Rightarrow> int \<Rightarrow> handle \<Rightarrow> pom_button" where
  "pom_first_session tr cfg r n =
     \<lparr>pm_running = True, pm_paused = False, pm_job = Some n, pm_clear_job = None,
      pm_phase = Work, pm_remaining = r, pm_sessions_completed = 0, pm_current_session = 1,
      pm_text = ''Work: '' @ format_time r @ newline @ ''Session '' @ str_int 1 @ ''/''
                @ str_int (sessions_before cfg),
      pm_sched = \<lparr>next_id = Suc n, pending = [(n, 1000, PomTick)]\<rparr>,
      pm_sounds = 0, pm_log = [StartingPomodoro], pm_edits = 0\<rparr>"

text \<open>
  A run of the default button (25 minutes of work, automatic advance): one click, the
  1500 ticks of the work session, then a double click before the queued
  \<^verbatim>\<open>advance_phase\<close> is due, then that callback.
\<close>

definition pom_work_done :: pom_button where
  "pom_work_done =
     (fire_callback untranslated pomodoro_cfg_default PomTick ^^ 1500)
       (pom_run untranslated pomodoro_cfg_default [PomClick])"

definition pom_reset_after_work :: pom_button where
  "pom_reset_after_work = pom_step untranslated pomodoro_cfg_default pom_work_done PomDoubleClick"

definition pom_advance_after_reset :: pom_button where
  "pom_advance_after_reset =
     fire_callback untranslated pomodoro_cfg_default PomAdvancePhase pom_reset_after_work"

text \<open>
  The same run left to itself: no double click, and the queued \<^verbatim>\<open>advance_phase\<close> fires
  when it is due, \<open>k\<close> times as it turns out to queue itself again.
\<close>

definition pom_work_done_advanced :: "nat \<Rightarrow> pom_button" where
  "pom_work_done_advanced k =
     (fire_callback untranslated pomodoro_cfg_default PomAdvancePhase ^^ k) pom_work_done"

text \<open>
  What a pomodoro button has queued of \<^verbatim>\<open>clear_complete_message\<close>: nothing, or one
  callback whose handle it holds as its clear job.
\<close>

definition pom_clear_held :: "pom_button \<Rightarrow> bool" where
  "pom_clear_held b =
     (case queued PomClearCompleteMessage (pm_sched b) of
        [] \<Rightarrow> True
      | e # es \<Rightarrow> es = [] \<and> pm_clear_job b = Some (fst e))"


section \<open>Properties\<close>

subsection \<open>Scheduler facts\<close>

lemma callback_of_ge:
  assumes "sched_fresh s" and "next_id s \<le> h"
  shows "callback_of h s = None"
proof -
  have "filter (\<lambda>e. fst e = h) (pending s) = []"
    using assms by (force simp: sched_fresh_def handles_def list_all_iff filter_empty_conv)
  then show ?thesis by (simp add: callback_of_def)
qed

lemma callback_of_fresh [simp]:
  "sched_fresh s \<Longrightarrow> callback_of (next_id s) s = None"
  by (simp add: callback_of_ge)

lemma callback_of_after:
  "callback_of h (snd (after ms cb s)) =
     (case callback_of h s of Some c \<Rightarrow> Some c
      | None \<Rightarrow> if h = next_id s then Some cb else None)"
  by (auto simp: callback_of_def after_def split: list.splits)

lemma callback_of_cancel:
  "callback_of h (after_cancel h' s) = (if h = h' then None else callback_of h s)"
proof -
  have "filter (\<lambda>e. fst e = h) (filter (\<lambda>e. fst e \<noteq> h') (pending s))
        = (if h = h' then [] else filter (\<lambda>e. fst e = h) (pending s))"
    by (induction "pending s" arbitrary: s) (auto intro: filter_cong)
  then show ?thesis by (simp add: callback_of_def after_cancel_def)
qed

lemma callback_of_cancel_opt:
  "callback_of h (cancel_opt j s) = (if j = Some h then None else callback_of h s)"
  by (cases j) (auto simp: cancel_opt_def callback_of_cancel)

lemma next_id_after [simp]: "next_id (snd (after ms cb s)) = Suc (next_id s)"
  by (simp add: after_def)

lemma fst_after [simp]: "fst (after ms cb s) = next_id s"
  by (simp add: after_def)

lemma next_id_cancel [simp]: "next_id (after_cancel h s) = next_id s"
  by (simp add: after_cancel_def)

lemma next_id_cancel_opt [simp]: "next_id (cancel_opt j s) = next_id s"
  by (cases j) (simp_all add: cancel_opt_def)

lemma sched_fresh_after [simp]: "sched_fresh s \<Longrightarrow> sched_fresh (snd (after ms cb s))"
  by (auto simp: sched_fresh_def after_def handles_def list_all_iff)

lemma sched_fresh_cancel [simp]: "sched_fresh s \<Longrightarrow> sched_fresh (after_cancel h s)"
  by (auto simp: sched_fresh_def after_cancel_def handles_def list_all_iff)

lemma sched_fresh_cancel_opt [simp]: "sched_fresh s \<Longrightarrow> sched_fresh (cancel_opt j s)"
  by (cases j) (simp_all add: cancel_opt_def)

lemma sched_fresh_init [simp]: "sched_fresh sched_init"
  by (simp add: sched_fresh_def sched_init_def handles_def)

subsection \<open>Ping rendering\<close>

lemma fmt_f_1_12: "fmt_f (Suc 0) 12 = ''12.0''"
  by code_simp

lemmas ping_scenario_defs =
  ping_rendered_def ping_run_def create_ping_button_def start_ping_def
  ping_update_label_def run_ping_statement_def run_ping_result_def ping_fire_def
  ping_clear_results_def
  ping_orig_label_def ping_host_of_def ping_cfg_8888_def ping_env_ok_def ping_env_fail_def
  after_def after_cancel_def cancel_opt_def callback_of_def sched_init_def
  ping_socket_fallback_def

text \<open>
  C6, as stated, fails: a successful 12 ms probe of 8.8.8.8 is not rendered with the
  time written as \<open>12ms\<close>.
\<close>

theorem ping_render_12ms_counterexample:
  "ping_rendered ping_cfg_8888 (ping_env_ok 12) \<noteq> ''8.8.8.8'' @ newline @ ''12ms''"
  by (simp add: ping_scenario_defs fmt_f_1_12 Let_def newline_def)

text \<open>
  C6, amended: a successful 12 ms probe of 8.8.8.8 is rendered with one decimal, as
  \<open>8.8.8.8\n12.0ms\<close>, and a failed probe as \<open>8.8.8.8\nFailed\<close>.
\<close>

theorem ping_render_scenario:
  "ping_rendered ping_cfg_8888 (ping_env_ok 12) = ''8.8.8.8'' @ newline @ ''12.0ms'' \<and>
   ping_rendered ping_cfg_8888 ping_env_fail = ''8.8.8.8'' @ newline @ ''Failed''"
  by (simp add: ping_scenario_defs fmt_f_1_12 Let_def)

subsection \<open>HTTP test: error statuses\<close>

lemmas http_scenario_defs =
  http_tested_def http_run_def create_http_test_button_def start_http_test_def
  http_update_label_def run_http_test_statement_def http_fire_def http_clear_results_def
  after_def after_cancel_def cancel_opt_def callback_of_def sched_init_def

lemma http_tested_results:
  "ht_results (http_tested tr up cfg env) = Some (run_http_test_result cfg env)"
  by (cases "run_http_test_result cfg env") (simp add: http_scenario_defs Let_def)

lemma http_tested_text_failed:
  assumes "fst (run_http_test_result cfg env) \<noteq> ''success''"
  shows "ht_text (http_tested tr up cfg env) = cross_mark @ '' '' @ tr ''Failed''"
  using assms by (cases "run_http_test_result cfg env") (simp add: http_scenario_defs Let_def)

lemma deciding_failed:
  assumes "deciding_response cfg env = Some (code, t)" and "400 \<le> code"
  shows "\<exists>hs cv. run_http_test_result cfg env = (''failed'', t, hs, cv)"
  using assms
  by (auto simp: deciding_response_def run_http_test_result_def http_fallback_def Let_def
      split: http_outcome.splits)

text \<open>
  C9: when the request that ends the worker's attempts returns without raising and its
  status code is 400 or more, the worker stores a result whose status is \<open>failed\<close>
  (with the measured time), and the button then shows the cross mark and \<open>Failed\<close>
  instead of lock icon, domain and latency.
\<close>

theorem http_error_status_renders_failed:
  assumes "deciding_response cfg env = Some (code, t)" and "400 \<le> code"
  shows "(\<exists>hs cv. ht_results (http_tested tr up cfg env) = Some (''failed'', t, hs, cv)) \<and>
         ht_text (http_tested tr up cfg env) = cross_mark @ '' '' @ tr ''Failed''"
proof -
  from deciding_failed [OF assms] obtain hs cv
    where r: "run_http_test_result cfg env = (''failed'', t, hs, cv)" by blast
  have "ht_results (http_tested tr up cfg env) = Some (''failed'', t, hs, cv)"
    by (simp add: http_tested_results r)
  moreover have "ht_text (http_tested tr up cfg env) = cross_mark @ '' '' @ tr ''Failed''"
    by (rule http_tested_text_failed) (simp add: r)
  ultimately show ?thesis by blast
qed

theorem http_error_status_renders_failed_witness:
  "deciding_response http_cfg_example (http_env_status 404 (1 / 4)) = Some (404, 1 / 4) \<and>
   (400::int) \<le> 404 \<and>
   ht_results (http_tested (\<lambda>s. s) (\<lambda>u. None) http_cfg_example (http_env_status 404 (1 / 4)))
     = Some (''failed'', 1 / 4, ''https'', True) \<and>
   ht_text (http_tested (\<lambda>s. s) (\<lambda>u. None) http_cfg_example (http_env_status 404 (1 / 4)))
     = cross_mark @ '' Failed''"
proof -
  have d: "deciding_response http_cfg_example (http_env_status 404 (1 / 4)) = Some (404, 1 / 4)"
    by (simp add: deciding_response_def http_env_status_def)
  have r: "run_http_test_result http_cfg_example (http_env_status 404 (1 / 4))
           = (''failed'', 1 / 4, ''https'', True)"
    by (simp add: run_http_test_result_def http_env_status_def)
  from http_error_status_renders_failed [OF d, of "\<lambda>s. s" "\<lambda>u. None"]
  show ?thesis using d by (simp add: http_tested_results r)
qed

subsection \<open>Color picker: the fallback colour\<close>

lemma all_fail_ff0000:
  "all_detection_fails env \<Longrightarrow> get_pixel_color env = Some ''ff0000''"
  by (auto simp: all_detection_fails_def get_pixel_color_def truthy_def Let_def
      get_pixel_color_windows_def get_pixel_color_macos_def get_pixel_color_linux_def
      split: pil_outcome.splits platform.splits)

lemma int_hex_ff: "int_hex ''ff'' = Some 255" "int_hex ''00'' = Some 0"
  by (simp_all add: int_hex_def hex_digit_def)

lemma fmt_02x_vals: "fmt_02x 255 = ''ff''" "fmt_02x 0 = ''00''"
  by code_simp+

lemma on_click_red:
  assumes "get_pixel_color env = Some ''ff0000''"
  shows "on_click env b =
     (let b3 = copy_to_clipboard env ''ff0000'' (b\<lparr>cp_picking := False, cp_color := Some ''ff0000''\<rparr>);
          s1 = snd (after 0 ColorUpdateLabel (cp_sched b));
          s2 = cancel_opt (cp_clear_job b) s1
      in b3\<lparr>cp_clear_job := Some (Suc (next_id (cp_sched b))),
            cp_sched := snd (after 30000 ColorClearColor s2)\<rparr>)"
  using assms
  by (simp add: on_click_def truthy_def Let_def copy_to_clipboard_def split_beta)

lemma update_label_red:
  assumes "cp_picking b = False" "cp_color b = Some ''ff0000''"
  shows "color_update_label tr cfg bg b =
         b\<lparr>cp_text := ''#ff0000'' @ newline @ tr ''Copied!'', cp_bg := ''#ff0000''\<rparr>"
  using assms
  by (simp add: color_update_label_def truthy_def Let_def int_hex_ff fmt_02x_vals)

text \<open>
  C10: when PIL gives no pixel and the platform's own method returns nothing, none of
  them raising, \<^verbatim>\<open>get_pixel_color\<close> returns \<open>ff0000\<close>. The click handler then takes
  its success branch: the colour is stored, \<open>#ff0000\<close> is copied to the clipboard (when
  a clipboard method works), no \<open>Pick failed\<close> callback is queued, and the queued
  \<^verbatim>\<open>update_label\<close> shows \<open>#ff0000\<close>, \<open>Copied!\<close> and a red background.
\<close>

theorem failed_pick_is_red:
  assumes "all_detection_fails env" and "color_button_ok b"
  shows "get_pixel_color env = Some ''ff0000'' \<and>
         cp_color (on_click env b) = Some ''ff0000'' \<and>
         (tk_clipboard_ok env \<or> system_clipboard_ok env \<longrightarrow>
            cp_clipboard (on_click env b) = Some ''#ff0000'') \<and>
         (\<forall>h. callback_of h (cp_sched (on_click env b)) = Some ColorShowPickFailed \<longrightarrow>
              callback_of h (cp_sched b) = Some ColorShowPickFailed) \<and>
         callback_of (next_id (cp_sched b)) (cp_sched (on_click env b)) = Some ColorUpdateLabel \<and>
         cp_text (color_fire tr cfg bg (next_id (cp_sched b)) (on_click env b))
           = ''#ff0000'' @ newline @ tr ''Copied!'' \<and>
         cp_bg (color_fire tr cfg bg (next_id (cp_sched b)) (on_click env b)) = ''#ff0000''"
proof -
  have red: "get_pixel_color env = Some ''ff0000''"
    using assms(1) by (rule all_fail_ff0000)
  have fresh: "sched_fresh (cp_sched b)"
    and job: "cp_clear_job b \<noteq> Some (next_id (cp_sched b))"
             "cp_clear_job b \<noteq> Some (Suc (next_id (cp_sched b)))"
    using assms(2) by (auto simp: color_button_ok_def)
  note oc = on_click_red [OF red, of b]
  have color: "cp_color (on_click env b) = Some ''ff0000''"
    and picking: "cp_picking (on_click env b) = False"
    by (simp_all add: oc Let_def copy_to_clipboard_def)
  have clip: "tk_clipboard_ok env \<or> system_clipboard_ok env \<Longrightarrow>
              cp_clipboard (on_click env b) = Some ''#ff0000''"
    by (auto simp: oc Let_def copy_to_clipboard_def)
  have cb: "callback_of h (cp_sched (on_click env b)) =
            (if h = next_id (cp_sched b) then Some ColorUpdateLabel
             else if cp_clear_job b = Some h then None
             else if h = Suc (next_id (cp_sched b)) then Some ColorClearColor
             else callback_of h (cp_sched b))" for h
    using fresh job
    by (auto simp: oc Let_def copy_to_clipboard_def callback_of_after callback_of_cancel_opt
        callback_of_ge split: option.splits)
  have nofail: "callback_of h (cp_sched (on_click env b)) = Some ColorShowPickFailed \<Longrightarrow>
                callback_of h (cp_sched b) = Some ColorShowPickFailed" for h
    by (simp add: cb split: if_splits)
  have fire: "color_fire tr cfg bg (next_id (cp_sched b)) (on_click env b) =
              (on_click env b)\<lparr>cp_sched := after_cancel (next_id (cp_sched b)) (cp_sched (on_click env b)),
                               cp_text := ''#ff0000'' @ newline @ tr ''Copied!'', cp_bg := ''#ff0000''\<rparr>"
    by (simp add: color_fire_def cb Let_def update_label_red color picking)
  show ?thesis
    using red color clip nofail by (simp add: cb fire)
qed

theorem failed_pick_is_red_witness:
  "all_detection_fails color_env_dead \<and>
   color_button_ok (color_picking_button (\<lambda>s. s) ''#111111'') \<and>
   tk_clipboard_ok color_env_dead \<and>
   get_pixel_color color_env_dead = Some ''ff0000'' \<and>
   cp_clipboard (on_click color_env_dead (color_picking_button (\<lambda>s. s) ''#111111''))
     = Some ''#ff0000'' \<and>
   cp_text (color_fire (\<lambda>s. s) \<lparr>color_label = None\<rparr> ''#111111'' 1
              (on_click color_env_dead (color_picking_button (\<lambda>s. s) ''#111111'')))
     = ''#ff0000'' @ newline @ ''Copied!'' \<and>
   cp_bg (color_fire (\<lambda>s. s) \<lparr>color_label = None\<rparr> ''#111111'' 1
            (on_click color_env_dead (color_picking_button (\<lambda>s. s) ''#111111'')))
     = ''#ff0000''"
proof -
  have a: "all_detection_fails color_env_dead"
    by (simp add: all_detection_fails_def color_env_dead_def)
  have b: "color_button_ok (color_picking_button (\<lambda>s. s) ''#111111'')"
    by (simp add: color_button_ok_def color_picking_button_def sched_fresh_def handles_def)
  have c: "tk_clipboard_ok color_env_dead"
    by (simp add: color_env_dead_def)
  have n: "next_id (cp_sched (color_picking_button (\<lambda>s. s) ''#111111'')) = 1"
    by (simp add: color_picking_button_def)
  from failed_pick_is_red [OF a b, of "\<lambda>s. s" "\<lparr>color_label = None\<rparr>" "''#111111''"]
  show ?thesis using a b c by (simp add: n)
qed

subsection \<open>Probes: which worker stores a result\<close>

lemma ping_run_snoc: "ping_run tr cfg (evs @ [e]) = ping_step tr cfg (ping_run tr cfg evs) e"
  by (simp add: ping_run_def)

lemma ping_update_label_fields [simp]:
  "pg_running (ping_update_label tr cfg b) = pg_running b"
  "pg_threads (ping_update_label tr cfg b) = pg_threads b"
  "pg_results (ping_update_label tr cfg b) = pg_results b"
  by (auto simp: ping_update_label_def split: option.splits)

lemma ping_clear_results_fields [simp]:
  "pg_running (ping_clear_results tr cfg b) = pg_running b"
  "pg_threads (ping_clear_results tr cfg b) = pg_threads b"
  by (auto simp: ping_clear_results_def Let_def split: option.splits)

lemma ping_fire_fields [simp]:
  "pg_running (ping_fire tr cfg h b) = pg_running b"
  "pg_threads (ping_fire tr cfg h b) = pg_threads b"
  by (auto simp: ping_fire_def Let_def split: option.splits ping_cb.splits)

lemma run_ping_statement_fields [simp]:
  "pg_running (run_ping_statement cfg env k b) = (k \<noteq> 1 \<and> pg_running b)"
  "pg_threads (run_ping_statement cfg env k b) = pg_threads b"
  "pg_results (run_ping_statement cfg env k b)
     = (if k = 0 then Some (run_ping_result cfg env) else pg_results b)"
  by (simp_all add: run_ping_statement_def Let_def split_beta)

lemma start_ping_fields:
  "pg_running (start_ping tr cfg b) = True"
  "pg_threads (start_ping tr cfg b)
     = (if pg_running b then pg_threads b else pg_threads b @ [0])"
  by (auto simp: start_ping_def Let_def split: option.splits)

lemma threads_ok_start: "threads_ok False ts \<Longrightarrow> threads_ok True (ts @ [0])"
  by (cases ts rule: rev_cases) (auto simp: threads_ok_def butlast_append)

lemma threads_ok_statement:
  assumes "threads_ok r ts" and "i < length ts"
  shows "threads_ok (ts ! i \<noteq> 1 \<and> r) (ts[i := Suc (ts ! i)])"
proof (cases ts rule: rev_cases)
  case Nil
  with assms show ?thesis by simp
next
  case (snoc ts0 t)
  show ?thesis
  proof (cases "i < length ts0")
    case True
    with assms snoc have "2 \<le> ts0 ! i" by (auto simp: threads_ok_def list_all_length)
    with True assms snoc show ?thesis
      by (auto simp: threads_ok_def list_update_append nth_append list_all_length nth_list_update)
  next
    case False
    with assms snoc have "i = length ts0" by simp
    with assms snoc show ?thesis by (auto simp: threads_ok_def)
  qed
qed

lemma threads_ok_newest:
  assumes "threads_ok r ts" and "i < length ts" and "ts ! i < 2"
  shows "Suc i = length ts \<and> r"
proof (cases ts rule: rev_cases)
  case Nil
  with assms show ?thesis by simp
next
  case (snoc ts0 t)
  with assms show ?thesis
    by (cases "i < length ts0") (auto simp: threads_ok_def list_all_length nth_append)
qed

lemma ping_threads_step:
  assumes "threads_ok (pg_running b) (pg_threads b)"
  shows "threads_ok (pg_running (ping_step tr cfg b e)) (pg_threads (ping_step tr cfg b e))"
proof (cases e)
  case PingClick
  with assms show ?thesis by (auto simp: start_ping_fields threads_ok_start)
next
  case (PingWorker i env)
  with assms threads_ok_statement [OF assms, of i] show ?thesis by simp
next
  case (PingFire h)
  with assms show ?thesis by simp
qed

lemma ping_threads_run:
  "threads_ok (pg_running (ping_run tr cfg evs)) (pg_threads (ping_run tr cfg evs))"
proof (induction evs rule: rev_induct)
  case Nil
  show ?case by (simp add: ping_run_def create_ping_button_def threads_ok_def)
next
  case (snoc e evs)
  then show ?case unfolding ping_run_snoc by (rule ping_threads_step)
qed

lemma ping_store_newest:
  assumes "threads_ok (pg_running b) (pg_threads b)"
    and "pg_results (ping_step tr cfg b (PingWorker i env)) \<noteq> pg_results b"
  shows "Suc i = length (pg_threads b) \<and> pg_running b \<and>
         pg_results (ping_step tr cfg b (PingWorker i env)) = Some (run_ping_result cfg env)"
proof -
  from assms(2) have i: "i < length (pg_threads b)" and z: "pg_threads b ! i = 0"
    by (auto split: if_splits)
  from threads_ok_newest [OF assms(1) i] z have "Suc i = length (pg_threads b) \<and> pg_running b"
    by simp
  with i z show ?thesis by simp
qed

lemma http_run_snoc:
  "http_run tr up cfg (evs @ [e]) = http_step tr up cfg (http_run tr up cfg evs) e"
  by (simp add: http_run_def)

lemma http_update_label_fields [simp]:
  "ht_running (http_update_label tr up cfg b) = ht_running b"
  "ht_threads (http_update_label tr up cfg b) = ht_threads b"
  "ht_results (http_update_label tr up cfg b) = ht_results b"
  by (auto simp: http_update_label_def Let_def split: option.splits)

lemma http_clear_results_fields [simp]:
  "ht_running (http_clear_results tr up cfg b) = ht_running b"
  "ht_threads (http_clear_results tr up cfg b) = ht_threads b"
  by (auto simp: http_clear_results_def Let_def split: option.splits)

lemma http_fire_fields [simp]:
  "ht_running (http_fire tr up cfg h b) = ht_running b"
  "ht_threads (http_fire tr up cfg h b) = ht_threads b"
  by (auto simp: http_fire_def Let_def split: option.splits http_cb.splits)

lemma run_http_test_statement_fields [simp]:
  "ht_running (run_http_test_statement cfg env k b) = (k \<noteq> 1 \<and> ht_running b)"
  "ht_threads (run_http_test_statement cfg env k b) = ht_threads b"
  "ht_results (run_http_test_statement cfg env k b)
     = (if k = 0 then Some (run_http_test_result cfg env) else ht_results b)"
  by (simp_all add: run_http_test_statement_def Let_def split_beta)

lemma start_http_test_fields:
  "ht_running (start_http_test tr up cfg b) = True"
  "ht_threads (start_http_test tr up cfg b)
     = (if ht_running b then ht_threads b else ht_threads b @ [0])"
  by (auto simp: start_http_test_def Let_def split: option.splits)

lemma http_threads_step:
  assumes "threads_ok (ht_running b) (ht_threads b)"
  shows "threads_ok (ht_running (http_step tr up cfg b e)) (ht_threads (http_step tr up cfg b e))"
proof (cases e)
  case HttpClick
  with assms show ?thesis by (auto simp: start_http_test_fields threads_ok_start)
next
  case (HttpWorker i env)
  with assms threads_ok_statement [OF assms, of i] show ?thesis by simp
next
  case (HttpFire h)
  with assms show ?thesis by simp
qed

lemma http_threads_run:
  "threads_ok (ht_running (http_run tr up cfg evs)) (ht_threads (http_run tr up cfg evs))"
proof (induction evs rule: rev_induct)
  case Nil
  show ?case by (simp add: http_run_def create_http_test_button_def threads_ok_def)
next
  case (snoc e evs)
  then show ?case unfolding http_run_snoc by (rule http_threads_step)
qed

lemma http_store_newest:
  assumes "threads_ok (ht_running b) (ht_threads b)"
    and "ht_results (http_step tr up cfg b (HttpWorker i env)) \<noteq> ht_results b"
  shows "Suc i = length (ht_threads b) \<and> ht_running b \<and>
         ht_results (http_step tr up cfg b (HttpWorker i env))
           = Some (run_http_test_result cfg env)"
proof -
  from assms(2) have i: "i < length (ht_threads b)" and z: "ht_threads b ! i = 0"
    by (auto split: if_splits)
  from threads_ok_newest [OF assms(1) i] z have "Suc i = length (ht_threads b) \<and> ht_running b"
    by simp
  with i z show ?thesis by simp
qed

text \<open>
  C1, as stated, fails: nothing in a worker checks that its activation is still the
  current one. The first worker of a ping button stores its result and clears
  \<^verbatim>\<open>running\<close>; a click then starts a second activation, which cancels the clear job and
  leaves no callback queued; the first worker, arriving after that restart, is not
  discarded: it goes on to queue \<^verbatim>\<open>update_label\<close> and to put a clear job of its own into
  the state of the second activation, which is still running.
\<close>

theorem stale_epilogue_counterexample:
  "pg_threads ping_restarted = [2, 0] \<and>
   pg_running ping_restarted \<and>
   pg_results ping_restarted = None \<and>
   pg_clear_job ping_restarted = None \<and>
   pending (pg_sched ping_restarted) = [] \<and>
   pg_threads ping_restarted_then_old_epilogue = [5, 0] \<and>
   pg_running ping_restarted_then_old_epilogue \<and>
   pg_clear_job ping_restarted_then_old_epilogue = Some 1 \<and>
   pending (pg_sched ping_restarted_then_old_epilogue)
     = [(0, 0, PingUpdateLabel), (1, 60000, PingClearResults)]"
  by (simp add: ping_restarted_then_old_epilogue_def ping_restarted_def ping_scenario_defs
      untranslated_def Let_def)

text \<open>
  C1, amended: for the ping and the HTTP-test button, in every state the button can
  reach, with its worker threads taken one statement at a time: every worker but the
  newest has cleared \<^verbatim>\<open>running\<close> already, and the probe is running exactly while the
  newest worker has not; a click while the probe is running changes nothing, so the probe
  is not restarted under a worker that has not cleared \<^verbatim>\<open>running\<close>; and a step of a worker
  that changes the stored result is a step of the newest worker, taken while the probe is
  running, and stores what that worker found. So a result is never stored into a later
  activation. What a worker does after it has cleared \<^verbatim>\<open>running\<close> is not guarded by
  anything.
\<close>

theorem probe_result_from_newest_worker:
  "(let b = ping_run tr cfg evs in
      threads_ok (pg_running b) (pg_threads b) \<and>
      (pg_running b \<longrightarrow> ping_step tr cfg b PingClick = b) \<and>
      (pg_results (ping_step tr cfg b (PingWorker i env)) \<noteq> pg_results b \<longrightarrow>
         Suc i = length (pg_threads b) \<and> pg_running b \<and>
         pg_results (ping_step tr cfg b (PingWorker i env)) = Some (run_ping_result cfg env))) \<and>
   (let b = http_run tr up hcfg hevs in
      threads_ok (ht_running b) (ht_threads b) \<and>
      (ht_running b \<longrightarrow> http_step tr up hcfg b HttpClick = b) \<and>
      (ht_results (http_step tr up hcfg b (HttpWorker j henv)) \<noteq> ht_results b \<longrightarrow>
         Suc j = length (ht_threads b) \<and> ht_running b \<and>
         ht_results (http_step tr up hcfg b (HttpWorker j henv))
           = Some (run_http_test_result hcfg henv)))"
proof -
  have p: "threads_ok (pg_running (ping_run tr cfg evs)) (pg_threads (ping_run tr cfg evs))"
    by (rule ping_threads_run)
  have h: "threads_ok (ht_running (http_run tr up hcfg hevs)) (ht_threads (http_run tr up hcfg hevs))"
    by (rule http_threads_run)
  have pc: "pg_running (ping_run tr cfg evs) \<longrightarrow>
            ping_step tr cfg (ping_run tr cfg evs) PingClick = ping_run tr cfg evs"
    by (simp add: start_ping_def)
  have hc: "ht_running (http_run tr up hcfg hevs) \<longrightarrow>
            http_step tr up hcfg (http_run tr up hcfg hevs) HttpClick = http_run tr up hcfg hevs"
    by (simp add: start_http_test_def)
  show ?thesis
    unfolding Let_def
    using p h pc hc ping_store_newest [OF p] http_store_newest [OF h] by blast
qed

theorem probe_result_from_newest_worker_witness:
  "threads_ok True [0] \<and>
   pg_running (ping_run untranslated ping_cfg_8888 [PingClick]) \<and>
   pg_threads (ping_run untranslated ping_cfg_8888 [PingClick]) = [0] \<and>
   ping_step untranslated ping_cfg_8888 (ping_run untranslated ping_cfg_8888 [PingClick]) PingClick
     = ping_run untranslated ping_cfg_8888 [PingClick] \<and>
   pg_results (ping_run untranslated ping_cfg_8888 [PingClick]) = None \<and>
   pg_results (ping_step untranslated ping_cfg_8888
       (ping_run untranslated ping_cfg_8888 [PingClick]) (PingWorker 0 (ping_env_ok 12)))
     = Some (Some 12, True, ''8.8.8.8'') \<and>
   ht_running (http_run untranslated (\<lambda>u. None) http_cfg_example [HttpClick]) \<and>
   ht_threads (http_run untranslated (\<lambda>u. None) http_cfg_example [HttpClick]) = [0] \<and>
   http_step untranslated (\<lambda>u. None) http_cfg_example
       (http_run untranslated (\<lambda>u. None) http_cfg_example [HttpClick]) HttpClick
     = http_run untranslated (\<lambda>u. None) http_cfg_example [HttpClick] \<and>
   ht_results (http_run untranslated (\<lambda>u. None) http_cfg_example [HttpClick]) = None \<and>
   ht_results (http_step untranslated (\<lambda>u. None) http_cfg_example
       (http_run untranslated (\<lambda>u. None) http_cfg_example [HttpClick])
       (HttpWorker 0 (http_env_status 200 (1 / 4))))
     = Some (''success'', 1 / 4, ''https'', True)"
proof -
  have r: "pg_running (ping_run untranslated ping_cfg_8888 [PingClick])"
    by (simp add: ping_run_def start_ping_fields)
  have t: "pg_threads (ping_run untranslated ping_cfg_8888 [PingClick]) = [0]"
    by (simp add: ping_run_def start_ping_fields create_ping_button_def)
  have n: "pg_results (ping_run untranslated ping_cfg_8888 [PingClick]) = None"
    by (simp add: ping_run_def start_ping_def create_ping_button_def Let_def)
  have hr: "ht_running (http_run untranslated (\<lambda>u. None) http_cfg_example [HttpClick])"
    by (simp add: http_run_def start_http_test_fields)
  have ht: "ht_threads (http_run untranslated (\<lambda>u. None) http_cfg_example [HttpClick]) = [0]"
    by (simp add: http_run_def start_http_test_fields create_http_test_button_def)
  have hn: "ht_results (http_run untranslated (\<lambda>u. None) http_cfg_example [HttpClick]) = None"
    by (simp add: http_run_def start_http_test_def create_http_test_button_def Let_def)
  have v: "run_ping_result ping_cfg_8888 (ping_env_ok 12) = (Some 12, True, ''8.8.8.8'')"
    by (simp add: run_ping_result_def ping_cfg_8888_def ping_env_ok_def ping_host_of_def)
  have hv: "run_http_test_result http_cfg_example (http_env_status 200 (1 / 4))
            = (''success'', 1 / 4, ''https'', True)"
    by (simp add: run_http_test_result_def http_env_status_def)
  from probe_result_from_newest_worker [of untranslated ping_cfg_8888 "[PingClick]" 0
      "ping_env_ok 12" "\<lambda>u. None" http_cfg_example "[HttpClick]" 0 "http_env_status 200 (1 / 4)"]
  show ?thesis using r hr t ht n hn by (simp add: Let_def v hv)
qed

subsection \<open>Overlay: exit codes\<close>

lemma startswith_self [simp]: "startswith (sub @ s) sub"
  by (simp add: startswith_def)

lemma contains_append_self: "contains (s @ sub) sub"
proof (induction s)
  case Nil
  show ?case by (cases sub) (simp_all add: startswith_def)
next
  case (Cons c s)
  then show ?case by simp
qed

lemma exit_error_occurred_iff:
  "exit_error_occurred uc code \<longleftrightarrow> code \<noteq> 0 \<and> \<not> uc \<and> code \<notin> {-1, 1, 2, 3, 15}"
  by (simp add: exit_error_occurred_def)

lemma overlay_after_exit_error:
  assumes "sched_fresh (ov_sched ov)" and "exit_error_occurred (ov_user_closed ov) code"
    and "\<not> contains (ov_title ov) error_suffix"
  shows "ov_title (overlay_after_exit tr code ov) = ov_title ov @ error_suffix"
  using assms
  by (simp add: overlay_after_exit_def read_output_exit_def overlay_fire_def Let_def
      callback_of_after callback_of_cancel callback_of_ge append_output_def finalize_output_def)

lemma overlay_after_exit_fine:
  assumes "sched_fresh (ov_sched ov)" and "\<not> exit_error_occurred (ov_user_closed ov) code"
    and "\<not> contains (ov_title ov) error_suffix" and "\<not> ov_error_occurred ov"
  shows "ov_title (overlay_after_exit tr code ov) = ov_title ov"
    and "callback_of (Suc (next_id (ov_sched ov))) (ov_sched (overlay_after_exit tr code ov))
         = Some CloseOverlay"
  using assms
  by (simp_all add: overlay_after_exit_def read_output_exit_def overlay_fire_def Let_def
      callback_of_after callback_of_cancel callback_of_ge append_output_def finalize_output_def)

text \<open>
  C2, as stated, fails: a session whose process ends with exit code 1 while the user has
  not closed the window is not classified as an error, and its title is left unmarked.
\<close>

theorem exit_code_1_not_error_counterexample:
  "\<not> ov_user_closed overlay_example \<and>
   \<not> exit_error_occurred (ov_user_closed overlay_example) 1 \<and>
   ov_title (overlay_after_exit untranslated 1 overlay_example) = ''Script Output - Backup''"
proof -
  have t: "ov_title overlay_example = ''Script Output - Backup''"
    and u: "\<not> ov_user_closed overlay_example"
    and e: "\<not> ov_error_occurred overlay_example"
    and s: "sched_fresh (ov_sched overlay_example)"
    by (simp_all add: overlay_example_def create_overlay_def run_script_overlay_def
        overlay_init_def launch_env_ok_def endswith_def untranslated_def Let_def
        sched_fresh_def sched_init_def handles_def)
  have c: "\<not> contains (ov_title overlay_example) error_suffix"
    by (simp add: t error_suffix_def startswith_def)
  have x: "\<not> exit_error_occurred (ov_user_closed overlay_example) 1"
    by (simp add: exit_error_occurred_def)
  show ?thesis
    using u x overlay_after_exit_fine(1) [OF s x c e] by (simp add: t)
qed

text \<open>
  C2, amended: exit code 0 is a success; a non-zero exit code is not an error when the
  user has closed the window (whatever the code), nor when it is one of -1, 1, 2, 3 and
  15 (whether or not the user closed the window); every other non-zero exit code
  classifies the session as errored, and the title is then marked with ERROR. The title
  of a session that started without an error is marked exactly in that case.
\<close>

theorem exit_code_classification:
  assumes "sched_fresh (ov_sched ov)" and "\<not> ov_error_occurred ov"
    and "\<not> contains (ov_title ov) error_suffix"
  shows "(exit_error_occurred (ov_user_closed ov) code
            \<longleftrightarrow> code \<noteq> 0 \<and> \<not> ov_user_closed ov \<and> code \<notin> {-1, 1, 2, 3, 15}) \<and>
         ov_title (overlay_after_exit tr code ov)
           = (if exit_error_occurred (ov_user_closed ov) code
              then ov_title ov @ error_suffix else ov_title ov) \<and>
         (contains (ov_title (overlay_after_exit tr code ov)) error_suffix
            \<longleftrightarrow> exit_error_occurred (ov_user_closed ov) code)"
proof (cases "exit_error_occurred (ov_user_closed ov) code")
  case True
  have "ov_title (overlay_after_exit tr code ov) = ov_title ov @ error_suffix"
    using assms(1) True assms(3) by (rule overlay_after_exit_error)
  then have "contains (ov_title (overlay_after_exit tr code ov)) error_suffix"
    "ov_title (overlay_after_exit tr code ov)
       = (if exit_error_occurred (ov_user_closed ov) code
          then ov_title ov @ error_suffix else ov_title ov)"
    using True by (simp_all add: contains_append_self)
  with True show ?thesis
    using exit_error_occurred_iff [of "ov_user_closed ov" code] by blast
next
  case False
  have "ov_title (overlay_after_exit tr code ov) = ov_title ov"
    using assms(1) False assms(3) assms(2) by (rule overlay_after_exit_fine)
  then have "\<not> contains (ov_title (overlay_after_exit tr code ov)) error_suffix"
    "ov_title (overlay_after_exit tr code ov)
       = (if exit_error_occurred (ov_user_closed ov) code
          then ov_title ov @ error_suffix else ov_title ov)"
    using False assms(3) by simp_all
  with False show ?thesis
    using exit_error_occurred_iff [of "ov_user_closed ov" code] by blast
qed

theorem exit_code_classification_witness:
  "sched_fresh (ov_sched overlay_example) \<and> \<not> ov_error_occurred overlay_example \<and>
   \<not> contains (ov_title overlay_example) error_suffix \<and>
   exit_error_occurred (ov_user_closed overlay_example) 7 \<and>
   ov_title (overlay_after_exit untranslated 7 overlay_example)
     = ''Script Output - Backup - ERROR'' \<and>
   \<not> exit_error_occurred (ov_user_closed (close_overlay 7 overlay_example)) 7 \<and>
   ov_title (overlay_after_exit untranslated 7 (close_overlay 7 overlay_example))
     = ''Script Output - Backup'' \<and>
   ov_title (overlay_after_exit untranslated 0 overlay_example) = ''Script Output - Backup''"
proof -
  have t: "ov_title overlay_example = ''Script Output - Backup''"
    and u: "\<not> ov_user_closed overlay_example"
    and e: "\<not> ov_error_occurred overlay_example"
    and s: "sched_fresh (ov_sched overlay_example)"
    by (simp_all add: overlay_example_def create_overlay_def run_script_overlay_def
        overlay_init_def launch_env_ok_def endswith_def untranslated_def Let_def
        sched_fresh_def sched_init_def handles_def)
  have c: "\<not> contains (ov_title overlay_example) error_suffix"
    by (simp add: t error_suffix_def startswith_def)
  have s': "sched_fresh (ov_sched (close_overlay 7 overlay_example))"
    and e': "\<not> ov_error_occurred (close_overlay 7 overlay_example)"
    and c': "\<not> contains (ov_title (close_overlay 7 overlay_example)) error_suffix"
    and u': "ov_user_closed (close_overlay 7 overlay_example)"
    and t': "ov_title (close_overlay 7 overlay_example) = ''Script Output - Backup''"
    using s e c t by (simp_all add: close_overlay_def Let_def)
  show ?thesis
    using exit_code_classification [OF s e c, of 7 untranslated]
      exit_code_classification [OF s e c, of 0 untranslated]
      exit_code_classification [OF s' e' c', of 7 untranslated]
      s e c u u'
    by (simp add: t t' error_suffix_def)
qed

subsection \<open>Overlay: prompts and input\<close>


lemma launch_error_waiting [simp]:
  "ov_waiting_for_input (launch_error tr m ov) = ov_waiting_for_input ov"
  by (simp add: launch_error_def)


lemma finalize_output_waiting [simp]:
  "ov_waiting_for_input (finalize_output tr r e ov) = ov_waiting_for_input ov"
  by (simp add: finalize_output_def Let_def)

lemma overlay_fire_waiting [simp]:
  "ov_waiting_for_input (overlay_fire tr h ov) = ov_waiting_for_input ov"
  by (simp add: overlay_fire_def Let_def append_output_def close_overlay_def
      split: option.splits overlay_cb.splits)

lemma overlay_step_waiting [simp]:
  "ov_waiting_for_input (overlay_step tr ov e) = ov_waiting_for_input ov"
  by (cases e)
    (simp_all add: read_output_exit_def read_output_failed_def send_input_def close_overlay_def
      Let_def split: proc_state.splits)





subsection \<open>Dispatcher: exceptions of a handler\<close>

lemma run_script_returns: "fst (run_script env cfg d) = Inr ()"
  by (simp add: run_script_def split: prod.splits sum.splits)

lemma execute_button_raise:
  assumes "get_handler env (cfg_type_of cfg) d = (Inr (Some h), d1)"
    and "handler_execute env h cfg = Some e"
  shows "execute_button env cfg d =
         (Inl e, logged (LogError (''Error executing button '' @ cfg_label_of cfg @ '': ''
                                   @ exc_text e)) d1)"
  using assms by (simp add: execute_button_def Let_def)

text \<open>
  C5: whatever a button's configuration and its handler do, \<^verbatim>\<open>run_script\<close> returns
  without an exception. When the handler's \<^verbatim>\<open>execute\<close> raises, \<^verbatim>\<open>execute_button\<close> logs
  the error and hands the exception to its caller, and \<^verbatim>\<open>run_script\<close> logs it again and
  reports it in one error box.
\<close>

theorem dispatcher_reports_handler_exception:
  "fst (run_script env cfg d) = Inr () \<and>
   (get_handler env (cfg_type_of cfg) d = (Inr (Some h), d1) \<and>
    handler_execute env h cfg = Some e \<longrightarrow>
      fst (execute_button env cfg d) = Inl e \<and>
      app_log (snd (execute_button env cfg d))
        = app_log d1 @ [LogError (''Error executing button '' @ cfg_label_of cfg @ '': ''
                                  @ exc_text e)] \<and>
      app_log (snd (run_script env cfg d))
        = app_log d1 @ [LogError (''Error executing button '' @ cfg_label_of cfg @ '': ''
                                  @ exc_text e),
                        LogError (''Failed to execute button '' @ cfg_label_of cfg @ '': ''
                                  @ exc_text e)] \<and>
      app_errorboxes (snd (run_script env cfg d))
        = app_errorboxes d1 @ [''Failed to execute button: '' @ exc_text e])"
proof -
  have "fst (run_script env cfg d) = Inr ()" by (rule run_script_returns)
  moreover
  { assume g: "get_handler env (cfg_type_of cfg) d = (Inr (Some h), d1)"
      and x: "handler_execute env h cfg = Some e"
    note eb = execute_button_raise [OF g x]
    have "fst (execute_button env cfg d) = Inl e"
      and "app_log (snd (execute_button env cfg d))
        = app_log d1 @ [LogError (''Error executing button '' @ cfg_label_of cfg @ '': ''
                                  @ exc_text e)]"
      and "app_log (snd (run_script env cfg d))
        = app_log d1 @ [LogError (''Error executing button '' @ cfg_label_of cfg @ '': ''
                                  @ exc_text e),
                        LogError (''Failed to execute button '' @ cfg_label_of cfg @ '': ''
                                  @ exc_text e)]"
      and "app_errorboxes (snd (run_script env cfg d))
        = app_errorboxes d1 @ [''Failed to execute button: '' @ exc_text e]"
      by (simp_all add: eb run_script_def logged_def) }
  ultimately show ?thesis by blast
qed

lemma get_handler_example:
  "get_handler dispatch_env_failing (cfg_type_of button_cfg_example) dispatcher_init =
     (Inr (Some (Handler ''shell'')),
      \<lparr>handlers_cache = [''shell'' \<mapsto> Handler ''shell''],
       app_log = [LogDebug ''Lazy loaded handler: shell''], app_errorboxes = []\<rparr>)"
  by (simp add: get_handler_def ensure_handler_loaded_def get_handler_class_def
      get_supported_types_def dispatch_env_failing_def button_cfg_example_def cfg_type_of_def
      dispatcher_init_def logged_def)

theorem dispatcher_reports_handler_exception_witness:
  "get_handler dispatch_env_failing (cfg_type_of button_cfg_example) dispatcher_init =
     (Inr (Some (Handler ''shell'')),
      \<lparr>handlers_cache = [''shell'' \<mapsto> Handler ''shell''],
       app_log = [LogDebug ''Lazy loaded handler: shell''], app_errorboxes = []\<rparr>) \<and>
   handler_execute dispatch_env_failing (Handler ''shell'') button_cfg_example = Some (Exc ''boom'') \<and>
   fst (run_script dispatch_env_failing button_cfg_example dispatcher_init) = Inr () \<and>
   fst (execute_button dispatch_env_failing button_cfg_example dispatcher_init) = Inl (Exc ''boom'') \<and>
   app_log (snd (run_script dispatch_env_failing button_cfg_example dispatcher_init))
     = [LogDebug ''Lazy loaded handler: shell'',
        LogError ''Error executing button Deploy: boom'',
        LogError ''Failed to execute button Deploy: boom''] \<and>
   app_errorboxes (snd (run_script dispatch_env_failing button_cfg_example dispatcher_init))
     = [''Failed to execute button: boom'']"
proof -
  have x: "handler_execute dispatch_env_failing (Handler ''shell'') button_cfg_example
           = Some (Exc ''boom'')"
    by (simp add: dispatch_env_failing_def)
  have l: "cfg_label_of button_cfg_example = ''Deploy''"
    by (simp add: cfg_label_of_def button_cfg_example_def)
  from dispatcher_reports_handler_exception
    [of dispatch_env_failing button_cfg_example dispatcher_init "Handler ''shell''" _ "Exc ''boom''"]
    get_handler_example x
  show ?thesis by (simp add: l)
qed

subsection \<open>Pomodoro: which break follows\<close>

lemma pom_run_snoc: "pom_run tr cfg (evs @ [e]) = pom_step tr cfg (pom_run tr cfg evs) e"
  by (simp add: pom_run_def)

lemma pom_update_label_fields [simp]:
  "pm_running (pom_update_label tr cfg b) = pm_running b"
  "pm_paused (pom_update_label tr cfg b) = pm_paused b"
  "pm_job (pom_update_label tr cfg b) = pm_job b"
  "pm_clear_job (pom_update_label tr cfg b) = pm_clear_job b"
  "pm_phase (pom_update_label tr cfg b) = pm_phase b"
  "pm_remaining (pom_update_label tr cfg b) = pm_remaining b"
  "pm_sessions_completed (pom_update_label tr cfg b) = pm_sessions_completed b"
  "pm_current_session (pom_update_label tr cfg b) = pm_current_session b"
  "pm_sched (pom_update_label tr cfg b) = pm_sched b"
  "pm_sounds (pom_update_label tr cfg b) = pm_sounds b"
  "pm_log (pom_update_label tr cfg b) = pm_log b"
  "pm_edits (pom_update_label tr cfg b) = pm_edits b"
  by (simp_all add: pom_update_label_def Let_def split: pom_phase.splits)

lemma pom_tick_count [simp]:
  "pm_sessions_completed (pom_tick tr cfg b) = pm_sessions_completed b"
  "pm_log (pom_tick tr cfg b) = pm_log b"
  by (simp_all add: pom_tick_def Let_def split_beta)

lemma pom_tick_phase:
  "pm_phase (pom_tick tr cfg b) =
     (if pm_running b \<and> \<not> pm_paused b \<and> \<not> 0 < pm_remaining b then Complete else pm_phase b)"
  by (simp add: pom_tick_def Let_def split_beta)

lemma since_reset_snoc:
  "since_reset (l @ [e]) = (if e = Resetting then [] else since_reset l @ [e])"
  by (simp add: since_reset_def)

lemma breaks_started_snoc:
  "breaks_started (l @ [e]) =
     (if e = Resetting then []
      else if is_break_start e then breaks_started l @ [e] else breaks_started l)"
  by (simp add: breaks_started_def since_reset_snoc)

lemma is_break_start_expected [simp]: "is_break_start (expected_break n k)"
  by (simp add: expected_break_def)

lemma expected_break_not_reset [simp]: "expected_break n k \<noteq> Resetting"
  by (simp add: expected_break_def)

lemma advance_phase_work:
  assumes "pm_phase b = Work" and "sessions_before cfg \<noteq> 0"
  shows "fst (advance_phase tr cfg b) = None"
    and "pm_sessions_completed (snd (advance_phase tr cfg b)) = pm_sessions_completed b + 1"
    and "pm_log (snd (advance_phase tr cfg b))
         = pm_log b @ [expected_break (sessions_before cfg) (pm_sessions_completed b + 1)]"
    and "pm_phase (snd (advance_phase tr cfg b)) =
         (if (pm_sessions_completed b + 1) mod sessions_before cfg = 0
          then (if 0 < long_break_seconds cfg then LongBreak else Complete)
          else (if 0 < short_break_seconds cfg then ShortBreak else Complete))"
  using assms
  by (simp_all add: advance_phase_def Let_def expected_break_def pom_tick_phase)

lemma advance_phase_other:
  assumes "pm_phase b \<noteq> Work"
  shows "pm_sessions_completed (snd (advance_phase tr cfg b)) = pm_sessions_completed b"
    and "breaks_started (pm_log (snd (advance_phase tr cfg b))) = breaks_started (pm_log b)"
  using assms
  by (simp_all add: advance_phase_def Let_def breaks_started_snoc)

lemma break_inv_advance:
  assumes "break_inv cfg b" and "sessions_before cfg \<noteq> 0"
  shows "break_inv cfg (snd (advance_phase tr cfg b))"
proof (cases "pm_phase b = Work")
  case True
  have "[1..pm_sessions_completed b + 1] = [1..pm_sessions_completed b] @ [pm_sessions_completed b + 1]"
    using assms(1) by (simp add: break_inv_def upto_rec2)
  then show ?thesis
    using assms(1) advance_phase_work [OF True assms(2), of tr]
    by (simp add: break_inv_def breaks_started_snoc)
next
  case False
  then show ?thesis
    using assms(1) advance_phase_other [OF False, of tr cfg] by (simp add: break_inv_def)
qed

lemma break_inv_cong:
  assumes "break_inv cfg b" and "pm_sessions_completed b' = pm_sessions_completed b"
    and "breaks_started (pm_log b') = breaks_started (pm_log b)"
  shows "break_inv cfg b'"
  using assms by (simp add: break_inv_def)

lemma break_inv_start: "break_inv cfg b \<Longrightarrow> break_inv cfg (start_pomodoro tr cfg b)"
  by (erule break_inv_cong) (simp_all add: start_pomodoro_def Let_def breaks_started_snoc)

lemma break_inv_reset: "break_inv cfg (reset_pomodoro tr cfg b)"
  by (simp add: break_inv_def reset_pomodoro_def Let_def breaks_started_snoc)

lemma break_inv_sched:
  "break_inv cfg (b\<lparr>pm_sched := s\<rparr>) = break_inv cfg b"
  "break_inv cfg (b\<lparr>pm_sched := s, pm_job := j\<rparr>) = break_inv cfg b"
  "break_inv cfg (b\<lparr>pm_edits := n\<rparr>) = break_inv cfg b"
  by (simp_all add: break_inv_def)

lemma break_inv_skip:
  assumes "break_inv cfg b" and "sessions_before cfg \<noteq> 0"
  shows "break_inv cfg (snd (skip_phase tr cfg b))"
proof (cases "pm_running b")
  case False
  then show ?thesis using assms(1) by (simp add: skip_phase_def)
next
  case True
  define b1 where "b1 = (case pm_job b of
      Some h \<Rightarrow> b\<lparr>pm_sched := after_cancel h (pm_sched b), pm_job := None\<rparr> | None \<Rightarrow> b)"
  have "break_inv cfg b1"
    using assms(1) by (simp add: b1_def break_inv_sched split: option.splits)
  then have a: "break_inv cfg (snd (advance_phase tr cfg b1))"
    using assms(2) by (rule break_inv_advance)
  have "snd (skip_phase tr cfg b) = snd (advance_phase tr cfg b1) \<or>
        snd (skip_phase tr cfg b)
          = (snd (advance_phase tr cfg b1))\<lparr>pm_log := pm_log (snd (advance_phase tr cfg b1)) @ [Skipping]\<rparr>"
    using True by (simp add: skip_phase_def b1_def Let_def split: prod.splits option.splits)
  then show ?thesis
  proof
    assume "snd (skip_phase tr cfg b) = snd (advance_phase tr cfg b1)"
    then show ?thesis using a by simp
  next
    assume e: "snd (skip_phase tr cfg b)
          = (snd (advance_phase tr cfg b1))\<lparr>pm_log := pm_log (snd (advance_phase tr cfg b1)) @ [Skipping]\<rparr>"
    show ?thesis
      unfolding e by (rule break_inv_cong [OF a]) (simp_all add: breaks_started_snoc)
  qed
qed

lemma break_inv_fire:
  assumes "break_inv cfg b" and "sessions_before cfg \<noteq> 0"
  shows "break_inv cfg (pom_fire tr cfg h b)"
proof (cases "callback_of h (pm_sched b)")
  case None
  then show ?thesis using assms(1) by (simp add: pom_fire_def)
next
  case (Some cb)
  have b1: "break_inv cfg (b\<lparr>pm_sched := after_cancel h (pm_sched b)\<rparr>)"
    using assms(1) by (simp add: break_inv_sched)
  show ?thesis
  proof (cases cb)
    case PomTick
    then show ?thesis
      using Some by (simp add: pom_fire_def Let_def) (rule break_inv_cong [OF b1], simp_all)
  next
    case PomClearCompleteMessage
    then show ?thesis
      using Some
      by (simp add: pom_fire_def Let_def clear_complete_message_def)
        (rule break_inv_cong [OF b1], simp_all)
  next
    case PomAdvancePhase
    then show ?thesis
      using Some break_inv_advance [OF b1 assms(2), of tr] by (simp add: pom_fire_def Let_def)
  qed
qed

lemma break_inv_step:
  assumes "break_inv cfg b" and "sessions_before cfg \<noteq> 0"
  shows "break_inv cfg (pom_step tr cfg b e)"
proof (cases e)
  case PomClick
  then show ?thesis using assms(1) by (simp add: break_inv_start)
next
  case PomRightClick
  then show ?thesis
    using break_inv_skip [OF assms, of tr] by (simp add: Let_def break_inv_sched)
next
  case PomDoubleClick
  then show ?thesis by (simp add: break_inv_reset)
next
  case (PomFire h)
  then show ?thesis using break_inv_fire [OF assms] by simp
qed

lemma break_inv_run:
  assumes "sessions_before cfg \<noteq> 0"
  shows "break_inv cfg (pom_run tr cfg evs)"
proof (induction evs rule: rev_induct)
  case Nil
  show ?case
    by (simp add: pom_run_def create_pomodoro_button_def break_inv_def breaks_started_def
        since_reset_def)
next
  case (snoc e evs)
  then show ?case unfolding pom_run_snoc using assms by (rule break_inv_step)
qed


text \<open>
  Where \<^verbatim>\<open>advance_phase\<close> is reached in phase Work, as by a secondary click during a
  work session, the rule it applies is the expected one. In every run of a pomodoro
  button whose number of sessions before a long break is positive, the breaks started
  since the last reset are the first, second, ... up to the last counted work session's,
  and the break after the \<open>k\<close>-th counted work session is the long break when \<open>k\<close> is a
  multiple of that number and the short break otherwise; \<^verbatim>\<open>advance_phase\<close> in phase Work
  raises nothing, counts the session, and starts the break of that kind (a break of no
  length is over at once).
\<close>

lemma break_after_counted_session:
  assumes "0 < sessions_before cfg"
  shows "0 \<le> pm_sessions_completed (pom_run tr cfg evs) \<and>
     breaks_started (pm_log (pom_run tr cfg evs))
       = map (expected_break (sessions_before cfg)) [1..pm_sessions_completed (pom_run tr cfg evs)] \<and>
     (pm_phase (pom_run tr cfg evs) = Work \<longrightarrow>
        fst (advance_phase tr cfg (pom_run tr cfg evs)) = None \<and>
        pm_sessions_completed (snd (advance_phase tr cfg (pom_run tr cfg evs)))
          = pm_sessions_completed (pom_run tr cfg evs) + 1 \<and>
        pm_log (snd (advance_phase tr cfg (pom_run tr cfg evs)))
          = pm_log (pom_run tr cfg evs)
            @ [expected_break (sessions_before cfg) (pm_sessions_completed (pom_run tr cfg evs) + 1)] \<and>
        pm_phase (snd (advance_phase tr cfg (pom_run tr cfg evs)))
          = (if (pm_sessions_completed (pom_run tr cfg evs) + 1) mod sessions_before cfg = 0
             then (if 0 < long_break_seconds cfg then LongBreak else Complete)
             else (if 0 < short_break_seconds cfg then ShortBreak else Complete)))"
proof -
  have n: "sessions_before cfg \<noteq> 0" using assms by simp
  have "break_inv cfg (pom_run tr cfg evs)" using n by (rule break_inv_run)
  then show ?thesis
    using advance_phase_work [OF _ n, of "pom_run tr cfg evs" tr]
    by (simp add: break_inv_def)
qed

lemmas pom_eval_defs =
  pom_run_def create_pomodoro_button_def start_pomodoro_def skip_phase_def advance_phase_def
  reset_pomodoro_def pom_tick_def pom_fire_def clear_complete_message_def
  pomodoro_cfg_two_def pomodoro_cfg_default_def work_seconds_def short_break_seconds_def
  long_break_seconds_def sessions_before_def auto_advance_of_def
  after_def after_cancel_def cancel_opt_def callback_of_def sched_init_def

lemma break_after_counted_session_example:
  "0 < sessions_before pomodoro_cfg_two \<and>
   pm_phase (pom_run untranslated pomodoro_cfg_two [PomClick, PomRightClick, PomRightClick]) = Work \<and>
   pm_sessions_completed
     (pom_run untranslated pomodoro_cfg_two [PomClick, PomRightClick, PomRightClick]) = 1 \<and>
   breaks_started
     (pm_log (pom_run untranslated pomodoro_cfg_two [PomClick, PomRightClick, PomRightClick]))
     = [StartingShortBreak 1] \<and>
   pm_log (snd (advance_phase untranslated pomodoro_cfg_two
       (pom_run untranslated pomodoro_cfg_two [PomClick, PomRightClick, PomRightClick])))
     = pm_log (pom_run untranslated pomodoro_cfg_two [PomClick, PomRightClick, PomRightClick])
       @ [StartingLongBreak 2] \<and>
   pm_phase (snd (advance_phase untranslated pomodoro_cfg_two
       (pom_run untranslated pomodoro_cfg_two [PomClick, PomRightClick, PomRightClick])))
     = LongBreak"
proof -
  have n: "sessions_before pomodoro_cfg_two = 2"
    and l: "long_break_seconds pomodoro_cfg_two = 900"
    by (simp_all add: sessions_before_def long_break_seconds_def pomodoro_cfg_two_def
        pomodoro_cfg_default_def)
  have p: "pm_phase (pom_run untranslated pomodoro_cfg_two [PomClick, PomRightClick, PomRightClick])
           = Work"
    and c: "pm_sessions_completed
              (pom_run untranslated pomodoro_cfg_two [PomClick, PomRightClick, PomRightClick]) = 1"
    by (simp_all add: pom_eval_defs Let_def)
  have pos: "0 < sessions_before pomodoro_cfg_two" by (simp add: n)
  from break_after_counted_session [OF pos, of untranslated "[PomClick, PomRightClick, PomRightClick]"]
  show ?thesis using p by (simp add: n l c expected_break_def)
qed

subsection \<open>Pomodoro: a callback that outlives the reset\<close>

lemma pom_click_first_session:
  assumes "0 < work_seconds cfg"
  shows "pom_run tr cfg [PomClick] = pom_first_session tr cfg (work_seconds cfg - 1) 0"
  using assms
  by (simp add: pom_run_def create_pomodoro_button_def start_pomodoro_def pom_tick_def
      pom_update_label_def pom_first_session_def after_def sched_init_def Let_def)

lemma pom_first_session_tick:
  assumes "0 < r"
  shows "fire_callback tr cfg PomTick (pom_first_session tr cfg r n)
         = pom_first_session tr cfg (r - 1) (Suc n)"
  using assms
  by (simp add: fire_callback_def pom_first_session_def pom_fire_def callback_of_def
      after_cancel_def pom_tick_def pom_update_label_def after_def Let_def)

lemma pom_first_session_ticks:
  assumes "int k \<le> r"
  shows "(fire_callback tr cfg PomTick ^^ k) (pom_first_session tr cfg r n)
         = pom_first_session tr cfg (r - int k) (n + k)"
  using assms
proof (induction k)
  case 0
  show ?case by simp
next
  case (Suc k)
  then have "0 < r - int k" by simp
  then show ?case
    using Suc by (simp add: pom_first_session_tick algebra_simps)
qed

lemma pom_first_session_end:
  assumes "auto_advance_of cfg"
  shows "fire_callback tr cfg PomTick (pom_first_session tr cfg 0 n) =
     \<lparr>pm_running = False, pm_paused = False, pm_job = Some n, pm_clear_job = Some (Suc n),
      pm_phase = Complete, pm_remaining = 0, pm_sessions_completed = 0, pm_current_session = 1,
      pm_text = tr ''Break Complete!'',
      pm_sched = \<lparr>next_id = Suc (Suc (Suc n)),
                   pending = [(Suc n, 60000, PomClearCompleteMessage),
                              (Suc (Suc n), 3000, PomAdvancePhase)]\<rparr>,
      pm_sounds = 1, pm_log = [StartingPomodoro], pm_edits = 0\<rparr>"
  using assms
  by (simp add: fire_callback_def pom_first_session_def pom_fire_def callback_of_def
      after_cancel_def pom_tick_def pom_update_label_def after_def cancel_opt_def Let_def)

lemma default_cfg_values:
  "work_seconds pomodoro_cfg_default = 1500"
  "auto_advance_of pomodoro_cfg_default"
  "sessions_before pomodoro_cfg_default = 4"
  "pom_orig_label tr pomodoro_cfg_default = tr ''Pomodoro''"
  by (simp_all add: work_seconds_def auto_advance_of_def sessions_before_def
      pom_orig_label_def pomodoro_cfg_default_def)

lemma pom_work_done_eq:
  "pom_work_done =
     \<lparr>pm_running = False, pm_paused = False, pm_job = Some 1499, pm_clear_job = Some 1500,
      pm_phase = Complete, pm_remaining = 0, pm_sessions_completed = 0, pm_current_session = 1,
      pm_text = ''Break Complete!'',
      pm_sched = \<lparr>next_id = 1502,
                   pending = [(1500, 60000, PomClearCompleteMessage),
                              (1501, 3000, PomAdvancePhase)]\<rparr>,
      pm_sounds = 1, pm_log = [StartingPomodoro], pm_edits = 0\<rparr>"
proof -
  have s: "(1500::nat) = Suc 1499" by simp
  have "pom_run untranslated pomodoro_cfg_default [PomClick]
        = pom_first_session untranslated pomodoro_cfg_default 1499 0"
    using pom_click_first_session [of pomodoro_cfg_default untranslated]
    by (simp add: default_cfg_values)
  moreover have "(fire_callback untranslated pomodoro_cfg_default PomTick ^^ 1499)
           (pom_first_session untranslated pomodoro_cfg_default 1499 0)
        = pom_first_session untranslated pomodoro_cfg_default 0 1499"
    using pom_first_session_ticks [of 1499 1499 untranslated pomodoro_cfg_default 0] by simp
  moreover have "(fire_callback untranslated pomodoro_cfg_default PomTick ^^ 1500) b
        = fire_callback untranslated pomodoro_cfg_default PomTick
            ((fire_callback untranslated pomodoro_cfg_default PomTick ^^ 1499) b)" for b
    by (simp only: s funpow.simps o_apply)
  ultimately have "pom_work_done = fire_callback untranslated pomodoro_cfg_default PomTick
                     (pom_first_session untranslated pomodoro_cfg_default 0 1499)"
    by (simp only: pom_work_done_def)
  then show ?thesis
    by (simp add: pom_first_session_end default_cfg_values untranslated_def)
qed

lemma pom_reset_after_work_eq:
  "pom_reset_after_work =
     \<lparr>pm_running = False, pm_paused = False, pm_job = None, pm_clear_job = None,
      pm_phase = Ready, pm_remaining = 1500, pm_sessions_completed = 0, pm_current_session = 1,
      pm_text = ''Pomodoro'',
      pm_sched = \<lparr>next_id = 1502, pending = [(1501, 3000, PomAdvancePhase)]\<rparr>,
      pm_sounds = 1, pm_log = [StartingPomodoro, Resetting], pm_edits = 0\<rparr>"
  by (simp add: pom_reset_after_work_def pom_work_done_eq reset_pomodoro_def after_cancel_def
      pom_update_label_def default_cfg_values untranslated_def Let_def)

text \<open>
  C4 fails on the pomodoro button. After the work session of the default button has run
  out, a double click resets the machine to Ready and cancels the two handles it holds,
  but the queued \<^verbatim>\<open>advance_phase\<close>, whose handle was never kept, stays queued. When it
  fires, the reset machine is running again, in phase Ready, with a new tick queued.
\<close>

theorem reset_leaves_advance_queued:
  "pm_phase pom_work_done = Complete \<and>
   map (\<lambda>e. snd (snd e)) (pending (pm_sched pom_work_done))
     = [PomClearCompleteMessage, PomAdvancePhase] \<and>
   pm_phase pom_reset_after_work = Ready \<and> \<not> pm_running pom_reset_after_work \<and>
   pm_job pom_reset_after_work = None \<and> pm_clear_job pom_reset_after_work = None \<and>
   map (\<lambda>e. snd (snd e)) (pending (pm_sched pom_reset_after_work)) = [PomAdvancePhase] \<and>
   pm_phase pom_advance_after_reset = Ready \<and> pm_running pom_advance_after_reset \<and>
   pm_remaining pom_advance_after_reset = 1499 \<and>
   map (\<lambda>e. snd (snd e)) (pending (pm_sched pom_advance_after_reset)) = [PomTick]"
proof -
  have a: "pom_advance_after_reset =
     \<lparr>pm_running = True, pm_paused = False, pm_job = Some 1502, pm_clear_job = None,
      pm_phase = Ready, pm_remaining = 1499, pm_sessions_completed = 0, pm_current_session = 1,
      pm_text = ''Pomodoro'',
      pm_sched = \<lparr>next_id = 1503, pending = [(1502, 1000, PomTick)]\<rparr>,
      pm_sounds = 1, pm_log = [StartingPomodoro, Resetting], pm_edits = 0\<rparr>"
    by (simp add: pom_advance_after_reset_def pom_reset_after_work_eq fire_callback_def
        pom_fire_def callback_of_def after_cancel_def advance_phase_def pom_tick_def
        pom_update_label_def after_def default_cfg_values untranslated_def Let_def)
  show ?thesis
    by (simp add: pom_work_done_eq pom_reset_after_work_eq a)
qed

subsection \<open>Pomodoro: a work session that runs out\<close>

lemma pom_work_done_advanced_eq:
  "pom_work_done_advanced k =
     \<lparr>pm_running = False, pm_paused = False, pm_job = Some 1499,
      pm_clear_job = Some (1500 + 2 * k),
      pm_phase = Complete, pm_remaining = 0, pm_sessions_completed = 0, pm_current_session = 1,
      pm_text = ''Break Complete!'',
      pm_sched = \<lparr>next_id = 1502 + 2 * k,
                   pending = [(1500 + 2 * k, 60000, PomClearCompleteMessage),
                              (1501 + 2 * k, 3000, PomAdvancePhase)]\<rparr>,
      pm_sounds = Suc k, pm_log = [StartingPomodoro], pm_edits = 0\<rparr>"
proof (induction k)
  case 0
  show ?case by (simp add: pom_work_done_advanced_def pom_work_done_eq)
next
  case (Suc k)
  have "pom_work_done_advanced (Suc k)
        = fire_callback untranslated pomodoro_cfg_default PomAdvancePhase
            (pom_work_done_advanced k)"
    by (simp add: pom_work_done_advanced_def)
  then show ?case
    unfolding Suc
    by (simp add: fire_callback_def pom_fire_def callback_of_def after_cancel_def
        advance_phase_def pom_tick_def pom_update_label_def after_def cancel_opt_def
        default_cfg_values untranslated_def Let_def)
qed

text \<open>
  C8 fails where a work session ends by running out. With the default button (a long
  break every four sessions, automatic advance), one primary click and the 1500 ticks of
  the work session: \<^verbatim>\<open>tick\<close> sets the phase to \<^verbatim>\<open>complete\<close> before it queues
  \<^verbatim>\<open>advance_phase\<close>, and \<^verbatim>\<open>advance_phase\<close>, finding neither a work phase nor a break, counts
  no session and starts no break; it sets the machine running with nothing left to
  count, so that \<^verbatim>\<open>tick\<close> completes again at once, plays the sound again and queues
  \<^verbatim>\<open>advance_phase\<close> again. However often the callback fires, the machine is in phase
  Complete, no session is counted and no break, short or long, has been started.
\<close>

theorem work_run_out_starts_no_break:
  "pm_phase (pom_work_done_advanced k) = Complete \<and>
   \<not> pm_running (pom_work_done_advanced k) \<and>
   pm_sessions_completed (pom_work_done_advanced k) = 0 \<and>
   pm_log (pom_work_done_advanced k) = [StartingPomodoro] \<and>
   breaks_started (pm_log (pom_work_done_advanced k)) = [] \<and>
   pm_sounds (pom_work_done_advanced k) = Suc k \<and>
   map (\<lambda>e. snd (snd e)) (pending (pm_sched (pom_work_done_advanced k)))
     = [PomClearCompleteMessage, PomAdvancePhase]"
  by (simp add: pom_work_done_advanced_eq breaks_started_def since_reset_def)

subsection \<open>Timer and pomodoro: what the clicks do\<close>




lemma timer_update_label_fields [simp]:
  "tm_running (timer_update_label tr cfg b) = tm_running b"
  "tm_paused (timer_update_label tr cfg b) = tm_paused b"
  "tm_remaining (timer_update_label tr cfg b) = tm_remaining b"
  "tm_job (timer_update_label tr cfg b) = tm_job b"
  "tm_sched (timer_update_label tr cfg b) = tm_sched b"
  "tm_sounds (timer_update_label tr cfg b) = tm_sounds b"
  "tm_edits (timer_update_label tr cfg b) = tm_edits b"
  by (simp_all add: timer_update_label_def Let_def)
















lemma pom_clear_held_upd [simp]:
  "pom_clear_held (b\<lparr>pm_running := r\<rparr>) = pom_clear_held b"
  "pom_clear_held (b\<lparr>pm_paused := p\<rparr>) = pom_clear_held b"
  "pom_clear_held (b\<lparr>pm_job := j\<rparr>) = pom_clear_held b"
  "pom_clear_held (b\<lparr>pm_phase := ph\<rparr>) = pom_clear_held b"
  "pom_clear_held (b\<lparr>pm_remaining := rm\<rparr>) = pom_clear_held b"
  "pom_clear_held (b\<lparr>pm_sessions_completed := sc\<rparr>) = pom_clear_held b"
  "pom_clear_held (b\<lparr>pm_current_session := cs\<rparr>) = pom_clear_held b"
  "pom_clear_held (b\<lparr>pm_sounds := sn\<rparr>) = pom_clear_held b"
  "pom_clear_held (b\<lparr>pm_log := l\<rparr>) = pom_clear_held b"
  "pom_clear_held (b\<lparr>pm_edits := ed\<rparr>) = pom_clear_held b"
  "pom_clear_held (pom_update_label tr cfg b) = pom_clear_held b"
  by (simp_all add: pom_clear_held_def split: list.splits)











lemma pom_tick_ends:
  assumes "pm_running b" and "\<not> pm_paused b" and "\<not> 0 < pm_remaining b"
  shows "\<not> pm_running (pom_tick tr cfg b)" and "\<not> pm_paused (pom_tick tr cfg b)"
    and "pm_phase (pom_tick tr cfg b) = Complete"
    and "pm_remaining (pom_tick tr cfg b) = pm_remaining b"
    and "pm_current_session (pom_tick tr cfg b) = pm_current_session b"
  using assms by (simp_all add: pom_tick_def Let_def split_beta)

lemma pom_tick_edits [simp]:
  "pm_edits (pom_tick tr cfg b) = pm_edits b"
  by (simp add: pom_tick_def Let_def split_beta)
















end
